theory Spec2Isabelle
  imports Complex_Main
begin

section \<open>JavaScript numbers\<close>

text \<open>
  A JavaScript \<^verbatim>\<open>number\<close> is modelled as an exact real, or one of the three special
  values NaN, +Infinity and -Infinity. Arithmetic on finite values is exact: the rounding
  of IEEE doubles, their finite range and the sign of zero are outside the model.
\<close>

datatype number = NaN | NegInf | Fin real | PosInf

fun truthy_num :: "number \<Rightarrow> bool" where
  "truthy_num NaN = False"
| "truthy_num (Fin x) = (x \<noteq> 0)"
| "truthy_num _ = True"

fun num_add :: "number \<Rightarrow> number \<Rightarrow> number" where
  "num_add NaN _ = NaN"
| "num_add _ NaN = NaN"
| "num_add (Fin a) (Fin b) = Fin (a + b)"
| "num_add PosInf NegInf = NaN"
| "num_add NegInf PosInf = NaN"
| "num_add PosInf _ = PosInf"
| "num_add _ PosInf = PosInf"
| "num_add NegInf _ = NegInf"
| "num_add _ NegInf = NegInf"

fun num_neg :: "number \<Rightarrow> number" where
  "num_neg NaN = NaN"
| "num_neg NegInf = PosInf"
| "num_neg PosInf = NegInf"
| "num_neg (Fin a) = Fin (- a)"

fun num_mul :: "number \<Rightarrow> number \<Rightarrow> number" where
  "num_mul NaN _ = NaN"
| "num_mul _ NaN = NaN"
| "num_mul (Fin a) (Fin b) = Fin (a * b)"
| "num_mul (Fin a) y = (if a = 0 then NaN else if 0 < a then y else num_neg y)"
| "num_mul x (Fin b) = (if b = 0 then NaN else if 0 < b then x else num_neg x)"
| "num_mul PosInf y = y"
| "num_mul NegInf y = num_neg y"

fun num_div :: "number \<Rightarrow> number \<Rightarrow> number" where
  "num_div NaN _ = NaN"
| "num_div _ NaN = NaN"
| "num_div (Fin a) (Fin b) =
     (if b \<noteq> 0 then Fin (a / b) else if a = 0 then NaN else if 0 < a then PosInf else NegInf)"
| "num_div (Fin a) _ = Fin 0"
| "num_div x (Fin b) = (if 0 \<le> b then x else num_neg x)"
| "num_div _ _ = NaN"

fun num_lt :: "number \<Rightarrow> number \<Rightarrow> bool" where
  "num_lt NaN _ = False"
| "num_lt _ NaN = False"
| "num_lt (Fin a) (Fin b) = (a < b)"
| "num_lt NegInf NegInf = False"
| "num_lt NegInf _ = True"
| "num_lt _ NegInf = False"
| "num_lt PosInf _ = False"
| "num_lt _ PosInf = True"

definition num_gt :: "number \<Rightarrow> number \<Rightarrow> bool" where
  "num_gt a b = num_lt b a"

text \<open>\<^verbatim>\<open>Math.ceil\<close> and \<^verbatim>\<open>Math.round\<close> (which rounds halves towards +Infinity).\<close>

fun Math_ceil :: "number \<Rightarrow> number" where
  "Math_ceil (Fin a) = Fin (of_int \<lceil>a\<rceil>)"
| "Math_ceil x = x"

fun Math_round :: "number \<Rightarrow> number" where
  "Math_round (Fin a) = Fin (of_int \<lfloor>a + 1 / 2\<rfloor>)"
| "Math_round x = x"

text \<open>\<^verbatim>\<open>a || b\<close> on numbers.\<close>

definition num_or :: "number \<Rightarrow> number \<Rightarrow> number" where
  "num_or a b = (if truthy_num a then a else b)"

section \<open>Strings\<close>

text \<open>
  A JavaScript string is modelled as a list of 8-bit characters, read as the code points
  U+0000 to U+00FF. Texts with characters beyond U+00FF are outside the model. The case
  mappings and character classes below are those of ECMAScript restricted to that range.
\<close>

definition code :: "char \<Rightarrow> nat" where
  "code c = of_char c"

definition isDigit :: "char \<Rightarrow> bool" where
  "isDigit c = (48 \<le> code c \<and> code c \<le> 57)"

definition isWordChar :: "char \<Rightarrow> bool" where
  "isWordChar c = ((48 \<le> code c \<and> code c \<le> 57) \<or> (65 \<le> code c \<and> code c \<le> 90)
     \<or> (97 \<le> code c \<and> code c \<le> 122) \<or> code c = 95)"

text \<open>White space and line terminators (\<^verbatim>\<open>\s\<close>, and what \<^verbatim>\<open>trim\<close> removes).\<close>

definition isSpace :: "char \<Rightarrow> bool" where
  "isSpace c = ((9 \<le> code c \<and> code c \<le> 13) \<or> code c = 32 \<or> code c = 160)"

definition isLineTerminator :: "char \<Rightarrow> bool" where
  "isLineTerminator c = (code c = 10 \<or> code c = 13)"

definition lowerChar :: "char \<Rightarrow> char" where
  "lowerChar c =
     (if (65 \<le> code c \<and> code c \<le> 90) \<or> (192 \<le> code c \<and> code c \<le> 222 \<and> code c \<noteq> 215)
      then char_of (code c + 32) else c)"

definition toLowerCase :: "string \<Rightarrow> string" where
  "toLowerCase s = map lowerChar s"

text \<open>
  Upper case: the sharp s (U+00DF) becomes SS. The upper case of U+00B5 and U+00FF lies
  beyond U+00FF; the model leaves these two characters unchanged.
\<close>

definition upperChar :: "char \<Rightarrow> string" where
  "upperChar c =
     (if (97 \<le> code c \<and> code c \<le> 122) \<or> (224 \<le> code c \<and> code c \<le> 254 \<and> code c \<noteq> 247)
      then [char_of (code c - 32)]
      else if code c = 223 then ''SS'' else [c])"

definition toUpperCase :: "string \<Rightarrow> string" where
  "toUpperCase s = concat (map upperChar s)"

definition trim :: "string \<Rightarrow> string" where
  "trim s = rev (dropWhile isSpace (rev (dropWhile isSpace s)))"

definition startsWith :: "string \<Rightarrow> string \<Rightarrow> bool" where
  "startsWith s t = (take (length t) s = t)"

fun str_includes :: "string \<Rightarrow> string \<Rightarrow> bool" where
  "str_includes [] t = (t = [])"
| "str_includes (c # cs) t = (startsWith (c # cs) t \<or> str_includes cs t)"

text \<open>
  \<^verbatim>\<open>input.normalize('NFD')\<close> followed by the removal of the combining marks U+0300 to
  U+036F. On the code points up to U+00FF this
  replaces each accented Latin letter by its base letter and changes nothing else.
\<close>

definition stripDiacritic :: "char \<Rightarrow> char" where
  "stripDiacritic c = (let n = code c in
     if 192 \<le> n \<and> n \<le> 197 then CHR ''A''
     else if n = 199 then CHR ''C''
     else if 200 \<le> n \<and> n \<le> 203 then CHR ''E''
     else if 204 \<le> n \<and> n \<le> 207 then CHR ''I''
     else if n = 209 then CHR ''N''
     else if 210 \<le> n \<and> n \<le> 214 then CHR ''O''
     else if 217 \<le> n \<and> n \<le> 220 then CHR ''U''
     else if n = 221 then CHR ''Y''
     else if 224 \<le> n \<and> n \<le> 229 then CHR ''a''
     else if n = 231 then CHR ''c''
     else if 232 \<le> n \<and> n \<le> 235 then CHR ''e''
     else if 236 \<le> n \<and> n \<le> 239 then CHR ''i''
     else if n = 241 then CHR ''n''
     else if 242 \<le> n \<and> n \<le> 246 then CHR ''o''
     else if 249 \<le> n \<and> n \<le> 252 then CHR ''u''
     else if n = 253 \<or> n = 255 then CHR ''y''
     else c)"

definition stripDiacritics :: "string \<Rightarrow> string" where
  "stripDiacritics s = map stripDiacritic s"

subsection \<open>parseFloat\<close>

text \<open>
  \<^verbatim>\<open>parseFloat\<close>: leading white space is skipped, then the longest prefix that is a
  decimal literal (sign, digits, fraction, exponent, or Infinity) is read; NaN when there
  is none.
\<close>

definition digitsVal :: "string \<Rightarrow> nat" where
  "digitsVal ds = foldl (\<lambda>a c. 10 * a + (code c - 48)) 0 ds"

definition parseExponent :: "string \<Rightarrow> int" where
  "parseExponent r =
     (case r of
        [] \<Rightarrow> 0
      | e # r' \<Rightarrow>
          if e = CHR ''e'' \<or> e = CHR ''E'' then
            (case r' of
               [] \<Rightarrow> 0
             | sg # ds \<Rightarrow>
                 if sg = CHR ''-'' then - int (digitsVal (takeWhile isDigit ds))
                 else if sg = CHR ''+'' then int (digitsVal (takeWhile isDigit ds))
                 else int (digitsVal (takeWhile isDigit r')))
          else 0)"

definition scale10 :: "real \<Rightarrow> int \<Rightarrow> real" where
  "scale10 m e = (if 0 \<le> e then m * 10 ^ nat e else m / 10 ^ nat (- e))"

definition parseUnsigned :: "string \<Rightarrow> number" where
  "parseUnsigned u =
     (if startsWith u ''Infinity'' then PosInf
      else
        let ip = takeWhile isDigit u;
            r1 = dropWhile isDigit u;
            hasDot = (case r1 of [] \<Rightarrow> False | c # _ \<Rightarrow> c = CHR ''.'');
            fp = (if hasDot then takeWhile isDigit (tl r1) else []);
            r2 = (if hasDot then dropWhile isDigit (tl r1) else r1)
        in if ip = [] \<and> fp = [] then NaN
           else Fin (scale10 (real (digitsVal ip) + real (digitsVal fp) / 10 ^ length fp)
                       (parseExponent r2)))"

definition parseFloat :: "string \<Rightarrow> number" where
  "parseFloat s =
     (let t = dropWhile isSpace s in
      case t of
        [] \<Rightarrow> NaN
      | c # r \<Rightarrow>
          if c = CHR ''-'' then num_neg (parseUnsigned r)
          else if c = CHR ''+'' then parseUnsigned r
          else parseUnsigned t)"

section \<open>Data model\<close>

text \<open>
  The interfaces of the route module. \<^verbatim>\<open>Parcel\<close> has the fields length, width, height and
  weight; they carry the prefix \<open>p_\<close> here. An optional field is an \<open>option\<close>.
\<close>

record Parcel =
  p_length :: number
  p_width :: number
  p_height :: number
  p_weight :: number

record ParsedRequest =
  parcels :: "Parcel list"
  origin :: string
  destination :: string
  originCountry :: string
  destCountry :: string
  isInternational :: bool
  isPallet :: bool
  needsBothQuotes :: bool

record QuoteResult =
  provider :: string
  service :: string
  price :: number
  currency :: string
  transitDays :: "string option"
  mode :: "string option"

text \<open>The value of a \<^verbatim>\<open>string | number\<close> field.\<close>

datatype strnum = Str string | Num number

text \<open>The rate objects of the two providers, as the interfaces of the module declare them.\<close>

record ShippoRate =
  sr_provider :: string
  sr_servicelevel :: "string option"
  sr_servicelevel_name :: "string option"
  sr_amount :: string
  sr_currency :: string
  sr_estimated_days :: "number option"
  sr_duration_terms :: "string option"

record FreightosRate =
  fr_mode :: "string option"
  fr_transportMode :: "string option"
  fr_price :: "number option"
  fr_totalPrice :: "number option"
  fr_amount :: "number option"
  fr_currency :: "string option"
  fr_transitTime :: "string option"
  fr_transit_time :: "string option"
  fr_serviceName :: "string option"
  fr_service :: "string option"

record MoneyAmount =
  ma_amount :: "strnum option"
  ma_currency :: "string option"

text \<open>
  \<open>ep_min\<close> is \<^verbatim>\<open>price.min?.moneyAmount\<close>, \<open>ep_max\<close> is \<^verbatim>\<open>price.max?.moneyAmount\<close>
  and \<open>ep_moneyAmount\<close> is \<^verbatim>\<open>price.moneyAmount\<close>.
\<close>

record EstimatePrice =
  ep_min :: "MoneyAmount option"
  ep_max :: "MoneyAmount option"
  ep_moneyAmount :: "MoneyAmount option"

record TransitTimes =
  tt_min :: "strnum option"
  tt_max :: "strnum option"
  tt_unit :: "string option"

record FreightosEstimateMode =
  em_mode :: "string option"
  em_price :: "EstimatePrice option"
  em_transitTimes :: "TransitTimes option"

datatype mode_field = OneMode FreightosEstimateMode | ModeArray "FreightosEstimateMode list"

text \<open>
  The body of the freight provider's response, at the type the module casts it to:
  \<open>fd_mode\<close> is \<^verbatim>\<open>data.response?.estimatedFreightRates?.mode\<close>.
\<close>

record FreightosData =
  fd_mode :: "mode_field option"
  fd_rates :: "FreightosRate list option"
  fd_results :: "FreightosRate list option"

section \<open>The world outside the module\<close>

text \<open>
  The outcome of \<^verbatim>\<open>fetch\<close> followed by \<^verbatim>\<open>response.json()\<close>: the fetch is rejected (the
  network fails), or a response arrives with its \<^verbatim>\<open>ok\<close> flag and a body that is JSON of
  the declared type (\<open>Some\<close>) or is not (\<open>None\<close>: \<^verbatim>\<open>json()\<close> throws).
\<close>

datatype 'a fetched = Rejected | Response bool "'a option"

datatype exn = NetworkError | SyntaxError

record UsAddress =
  city :: string
  state :: string
  zip :: string

record ShippoAddress = UsAddress +
  country :: string

record Place =
  place_name :: "string option"
  state_abbreviation :: "string option"
  post_code :: "string option"

record NominatimAddress =
  na_city :: "string option"
  na_town :: "string option"
  na_village :: "string option"
  na_hamlet :: "string option"
  na_state :: "string option"
  na_postcode :: "string option"

record NominatimResult =
  nr_address :: "NominatimAddress option"
  nr_lat :: "string option"
  nr_lon :: "string option"

text \<open>The requests the module sends, in the order it sends them.\<close>

datatype ext_call =
    ZipLookup string
  | CityStateLookup string string
  | NominatimSearch string
  | NominatimReverse string string
  | ShippoShipment ShippoAddress ShippoAddress "Parcel list" string string
  | FreightosEstimate ParsedRequest
  | DbInsert string

text \<open>
  The environment variables, two functions of the platform, and the answers of the
  external services. An answer may depend on the request and on the number of requests
  sent before it. \<^verbatim>\<open>Promise.all\<close> is modelled as running its arguments from left to right.
\<close>

record world =
  SHIPPO_API_KEY :: "string option"
  FREIGHTOS_API_KEY :: "string option"
  DATABASE_URL :: "string option"
  numberToString :: "number \<Rightarrow> string"
  sortByPrice :: "QuoteResult list \<Rightarrow> QuoteResult list"
  zippopotamZip :: "nat \<Rightarrow> string \<Rightarrow> Place list fetched"
  zippopotamCity :: "nat \<Rightarrow> string \<Rightarrow> string \<Rightarrow> Place list fetched"
  nominatimSearch :: "nat \<Rightarrow> string \<Rightarrow> NominatimResult list fetched"
  nominatimReverse :: "nat \<Rightarrow> string \<Rightarrow> string \<Rightarrow> NominatimAddress option fetched"
  shippoShipments :: "nat \<Rightarrow> ShippoAddress \<Rightarrow> ShippoAddress \<Rightarrow> Parcel list \<Rightarrow> string \<Rightarrow> string
     \<Rightarrow> ShippoRate list option fetched"
  freightosCalculator :: "nat \<Rightarrow> ParsedRequest \<Rightarrow> FreightosData fetched"

text \<open>The mutable state: the process-wide address cache and the log of requests sent.\<close>

record sys_state =
  LOCATION_CACHE :: "string \<rightharpoonup> UsAddress"
  calls :: "ext_call list"

definition send :: "ext_call \<Rightarrow> sys_state \<Rightarrow> sys_state" where
  "send c s = s\<lparr>calls := calls s @ [c]\<rparr>"

definition truthy_str :: "string option \<Rightarrow> bool" where
  "truthy_str x = (case x of None \<Rightarrow> False | Some v \<Rightarrow> v \<noteq> [])"

definition str_or :: "string option \<Rightarrow> string option \<Rightarrow> string option" where
  "str_or a b = (if truthy_str a then a else b)"

definition str_or_default :: "string option \<Rightarrow> string \<Rightarrow> string" where
  "str_or_default a d = (if truthy_str a then the a else d)"

definition truthy_strnum :: "strnum option \<Rightarrow> bool" where
  "truthy_strnum x = (case x of None \<Rightarrow> False | Some (Str v) \<Rightarrow> v \<noteq> [] | Some (Num n) \<Rightarrow> truthy_num n)"

definition truthy_numopt :: "number option \<Rightarrow> bool" where
  "truthy_numopt x = (case x of None \<Rightarrow> False | Some n \<Rightarrow> truthy_num n)"

section \<open>The freight provider\<close>

subsection \<open>Helpers of getFreightosQuotes\<close>

definition totalWeightOf :: "Parcel list \<Rightarrow> number" where
  "totalWeightOf ps = foldl (\<lambda>sum p. num_add sum (p_weight p)) (Fin 0) ps"

definition totalVolumeOf :: "Parcel list \<Rightarrow> number" where
  "totalVolumeOf ps =
     foldl (\<lambda>sum p. num_add sum (num_mul (num_mul (p_length p) (p_width p)) (p_height p))) (Fin 0) ps"

definition parseAmount :: "strnum option \<Rightarrow> number" where
  "parseAmount a = (case a of None \<Rightarrow> Fin 0 | Some (Num n) \<Rightarrow> n | Some (Str v) \<Rightarrow> parseFloat v)"

definition showStrnum :: "world \<Rightarrow> strnum option \<Rightarrow> string" where
  "showStrnum w x = (case x of None \<Rightarrow> ''undefined'' | Some (Str v) \<Rightarrow> v | Some (Num n) \<Rightarrow> numberToString w n)"

definition toTransitDays :: "world \<Rightarrow> TransitTimes option \<Rightarrow> string option" where
  "toTransitDays w transit =
     (case transit of
        None \<Rightarrow> None
      | Some t \<Rightarrow>
          if truthy_strnum (tt_min t) \<and> truthy_strnum (tt_max t) then
            Some (showStrnum w (tt_min t) @ ''-'' @ showStrnum w (tt_max t) @ '' '' @ str_or_default (tt_unit t) ''days'')
          else if truthy_strnum (tt_min t) then
            Some (showStrnum w (tt_min t) @ '' '' @ str_or_default (tt_unit t) ''days'')
          else None)"

text \<open>\<^verbatim>\<open>mode.price?.min?.moneyAmount?.amount || mode.price?.moneyAmount?.amount\<close>\<close>

definition modeAmount :: "FreightosEstimateMode \<Rightarrow> strnum option" where
  "modeAmount m =
     (case em_price m of
        None \<Rightarrow> None
      | Some p \<Rightarrow>
          let a = (case ep_min p of None \<Rightarrow> None | Some ma \<Rightarrow> ma_amount ma);
              b = (case ep_moneyAmount p of None \<Rightarrow> None | Some ma \<Rightarrow> ma_amount ma)
          in if truthy_strnum a then a else b)"

definition modeCurrency :: "FreightosEstimateMode \<Rightarrow> string" where
  "modeCurrency m =
     (case em_price m of
        None \<Rightarrow> ''USD''
      | Some p \<Rightarrow>
          let a = (case ep_min p of None \<Rightarrow> None | Some ma \<Rightarrow> ma_currency ma);
              b = (case ep_moneyAmount p of None \<Rightarrow> None | Some ma \<Rightarrow> ma_currency ma)
          in str_or_default (str_or a b) ''USD'')"

definition modeLabel :: "FreightosEstimateMode \<Rightarrow> string option" where
  "modeLabel m = map_option toLowerCase (em_mode m)"

definition buildCheapest ::
  "world \<Rightarrow> FreightosEstimateMode list \<Rightarrow> string \<Rightarrow> string \<Rightarrow> QuoteResult list \<Rightarrow> QuoteResult list" where
  "buildCheapest w modeList label fallbackMode quotes =
     (case modeList of
        [] \<Rightarrow> quotes
      | m0 # _ \<Rightarrow>
          let cheapest = foldl (\<lambda>mn m.
                let price = parseAmount (modeAmount m);
                    minPrice = num_or (parseAmount (modeAmount mn)) PosInf
                in if truthy_num price \<and> num_lt price minPrice then m else mn) m0 modeList;
              amount = parseAmount (modeAmount cheapest)
          in if \<not> truthy_num amount then quotes
             else quotes @
               [\<lparr>provider = ''Freightos'', service = label @ '' (Estimate)'', price = amount,
                 currency = modeCurrency cheapest,
                 transitDays = toTransitDays w (em_transitTimes cheapest),
                 mode = Some fallbackMode\<rparr>])"

text \<open>\<^verbatim>\<open>r.price || r.totalPrice || r.amount || d\<close>\<close>

definition ratePrice :: "FreightosRate \<Rightarrow> number \<Rightarrow> number" where
  "ratePrice r d =
     (if truthy_numopt (fr_price r) then the (fr_price r)
      else if truthy_numopt (fr_totalPrice r) then the (fr_totalPrice r)
      else if truthy_numopt (fr_amount r) then the (fr_amount r)
      else d)"

text \<open>\<^verbatim>\<open>reduce\<close> without an initial value, on a list that is not empty.\<close>

definition cheapestRate :: "FreightosRate \<Rightarrow> FreightosRate list \<Rightarrow> FreightosRate" where
  "cheapestRate r0 rs =
     foldl (\<lambda>mn r. if num_lt (ratePrice r (Fin 0)) (ratePrice mn PosInf) then r else mn) r0 rs"

definition isAirRate :: "FreightosRate \<Rightarrow> bool" where
  "isAirRate r = (fr_mode r = Some ''air'' \<or> fr_transportMode r = Some ''AIR'')"

definition isOceanRate :: "FreightosRate \<Rightarrow> bool" where
  "isOceanRate r = (fr_mode r = Some ''sea'' \<or> fr_mode r = Some ''ocean'' \<or> fr_transportMode r = Some ''SEA''
     \<or> fr_transportMode r = Some ''LCL'' \<or> fr_transportMode r = Some ''FCL'')"

definition cheapestQuote :: "FreightosRate list \<Rightarrow> string \<Rightarrow> string \<Rightarrow> QuoteResult list \<Rightarrow> QuoteResult list" where
  "cheapestQuote rs svc md quotes =
     (case rs of
        [] \<Rightarrow> quotes
      | r0 # rest \<Rightarrow>
          let c = cheapestRate r0 rest
          in quotes @
             [\<lparr>provider = ''Freightos'', service = svc, price = ratePrice c (Fin 0),
               currency = str_or_default (fr_currency c) ''USD'',
               transitDays = Some (str_or_default (str_or (fr_transitTime c) (fr_transit_time c)) ''Varies''),
               mode = Some md\<rparr>])"

definition verbatimQuote :: "FreightosRate \<Rightarrow> QuoteResult" where
  "verbatimQuote r =
     \<lparr>provider = ''Freightos'',
      service = str_or_default (str_or (fr_serviceName r) (fr_service r)) ''Freight'',
      price = ratePrice r (Fin 0),
      currency = str_or_default (fr_currency r) ''USD'',
      transitDays = Some (str_or_default (str_or (fr_transitTime r) (fr_transit_time r)) ''Varies''),
      mode = Some (str_or_default (str_or (fr_mode r) (fr_transportMode r)) ''Freight'')\<rparr>"

subsection \<open>getFreightosQuotes\<close>

definition isDomestic :: "ParsedRequest \<Rightarrow> bool" where
  "isDomestic parsed = (originCountry parsed = destCountry parsed)"

definition isFreight :: "ParsedRequest \<Rightarrow> bool" where
  "isFreight parsed =
     (isPallet parsed \<or> num_gt (totalWeightOf (parcels parsed)) (Fin 150)
        \<or> num_gt (totalVolumeOf (parcels parsed)) (Fin 50000))"

definition allowAir :: "ParsedRequest \<Rightarrow> bool" where
  "allowAir parsed = (\<not> (isDomestic parsed \<and> isFreight parsed))"

definition weightKg :: "ParsedRequest \<Rightarrow> number" where
  "weightKg parsed = Math_ceil (num_mul (totalWeightOf (parcels parsed)) (Fin 0.453592))"

text \<open>The block guarded by \<^verbatim>\<open>if (estimated?.mode)\<close>; \<open>quotes\<close> is the array it pushes to.\<close>

definition freightosTier1 :: "world \<Rightarrow> ParsedRequest \<Rightarrow> FreightosData \<Rightarrow> QuoteResult list \<Rightarrow> QuoteResult list" where
  "freightosTier1 w parsed data quotes =
     (case fd_mode data of
        None \<Rightarrow> quotes
      | Some mf \<Rightarrow>
          let modes = (case mf of ModeArray ms \<Rightarrow> ms | OneMode m \<Rightarrow> [m]);
              airModes = (if allowAir parsed
                          then filter (\<lambda>m. modeLabel m = Some ''air'' \<or> modeLabel m = Some ''express'') modes
                          else []);
              freightModes = filter (\<lambda>m. modeLabel m = Some ''lcl'' \<or> modeLabel m = Some ''fcl''
                                \<or> modeLabel m = Some ''sea'' \<or> modeLabel m = Some ''ocean''
                                \<or> modeLabel m = Some ''ltl'' \<or> modeLabel m = Some ''ftl'') modes;
              quotes1 = (if allowAir parsed then buildCheapest w airModes ''Air Freight'' ''Air'' quotes else quotes);
              freightLabel = (if isDomestic parsed \<and> isFreight parsed then ''Ground Freight'' else ''Ocean Freight'');
              freightMode = (if isDomestic parsed \<and> isFreight parsed then ''Ground'' else ''Ocean/LCL'')
          in buildCheapest w freightModes freightLabel freightMode quotes1)"

text \<open>
  The block guarded by \<^verbatim>\<open>if (data.rates || data.results)\<close>. It either returns from the
  function (\<open>Returned\<close>) or falls through with the array of quotes (\<open>Continues\<close>).
\<close>

datatype flow = Returned "QuoteResult list" | Continues "QuoteResult list"

definition ratesOf :: "FreightosData \<Rightarrow> FreightosRate list option" where
  "ratesOf data = (case fd_rates data of Some rs \<Rightarrow> Some rs | None \<Rightarrow> fd_results data)"

definition freightosTier2 :: "FreightosData \<Rightarrow> QuoteResult list \<Rightarrow> flow" where
  "freightosTier2 data quotes =
     (case ratesOf data of
        None \<Rightarrow> Continues quotes
      | Some rates \<Rightarrow>
          let airRates = filter isAirRate rates;
              oceanRates = filter isOceanRate rates;
              quotes1 = cheapestQuote airRates ''Air Freight (Cheapest)'' ''Air'' quotes;
              quotes2 = cheapestQuote oceanRates ''Ocean Freight (Cheapest)'' ''Ocean/LCL'' quotes1
          in if quotes2 = [] \<and> rates \<noteq> [] then Returned (map verbatimQuote (take 5 rates))
             else Continues quotes2)"

text \<open>The block guarded by \<^verbatim>\<open>if (quotes.length === 0)\<close>.\<close>

definition freightosTier3 :: "ParsedRequest \<Rightarrow> QuoteResult list \<Rightarrow> QuoteResult list" where
  "freightosTier3 parsed quotes =
     (if quotes = [] then
        let baseAirRate = Fin 3.5;
            baseOceanRate = Fin 0.8;
            baseGroundRate = Fin 1.2;
            quotes1 = (if allowAir parsed then
                quotes @ [\<lparr>provider = ''Freightos'', service = ''Air Freight (Estimate)'',
                  price = num_div (Math_round (num_mul (num_mul (weightKg parsed) baseAirRate) (Fin 100))) (Fin 100),
                  currency = ''USD'', transitDays = Some ''3-7 days'', mode = Some ''Air''\<rparr>]
              else quotes)
        in quotes1 @
           [\<lparr>provider = ''Freightos'',
             service = (if isDomestic parsed \<and> isFreight parsed then ''Ground Freight (Estimate)'' else ''Ocean/LCL (Estimate)''),
             price = num_div (Math_round (num_mul
                        (num_mul (weightKg parsed) (if isDomestic parsed \<and> isFreight parsed then baseGroundRate else baseOceanRate))
                        (Fin 100))) (Fin 100),
             currency = ''USD'',
             transitDays = Some (if isDomestic parsed \<and> isFreight parsed then ''2-7 days'' else ''15-30 days''),
             mode = Some (if isDomestic parsed \<and> isFreight parsed then ''Ground'' else ''Ocean/LCL'')\<rparr>]
      else quotes)"

text \<open>What getFreightosQuotes does with the parsed body \<open>data\<close> of the response.\<close>

definition freightosQuotesOf :: "world \<Rightarrow> ParsedRequest \<Rightarrow> FreightosData \<Rightarrow> QuoteResult list" where
  "freightosQuotesOf w parsed data =
     (let quotes = freightosTier1 w parsed data []
      in case freightosTier2 data quotes of
           Returned r \<Rightarrow> r
         | Continues quotes2 \<Rightarrow> freightosTier3 parsed quotes2)"

text \<open>
  The body of the \<^verbatim>\<open>try\<close> block. The query string is a function of \<open>parsed\<close> and of the
  optional key, so the request is logged as \<open>FreightosEstimate parsed\<close>. A rejected fetch
  and a body that is not JSON throw.
\<close>

definition getFreightosQuotes_try ::
  "world \<Rightarrow> ParsedRequest \<Rightarrow> sys_state \<Rightarrow> (exn + QuoteResult list) \<times> sys_state" where
  "getFreightosQuotes_try w parsed s =
     (let s1 = send (FreightosEstimate parsed) s
      in case freightosCalculator w (length (calls s)) parsed of
           Rejected \<Rightarrow> (Inl NetworkError, s1)
         | Response ok None \<Rightarrow> (Inl SyntaxError, s1)
         | Response ok (Some data) \<Rightarrow> (Inr (freightosQuotesOf w parsed data), s1))"

text \<open>The \<^verbatim>\<open>catch\<close> clause logs the error and returns the empty array.\<close>

definition getFreightosQuotes ::
  "world \<Rightarrow> ParsedRequest \<Rightarrow> sys_state \<Rightarrow> (exn + QuoteResult list) \<times> sys_state" where
  "getFreightosQuotes w parsed s =
     (case getFreightosQuotes_try w parsed s of
        (Inl e, s1) \<Rightarrow> (Inr [], s1)
      | (Inr quotes, s1) \<Rightarrow> (Inr quotes, s1))"

section \<open>Regular expressions\<close>

text \<open>
  The patterns of the module are values of \<open>regex\<close>, and \<open>matcher\<close> is the backtracking
  matcher of ECMAScript: \<open>matcher ic r s\<close> lists, in the order in which backtracking
  tries them, the states in which a match of \<open>r\<close> that starts in state \<open>s\<close> can end. The
  first element is the match the engine reports. A state holds the input before the
  position (most recent character first), the input after it, and the captures.
  \<open>ic\<close> is the flag \<^verbatim>\<open>i\<close>. \<open>Rep r mn mx greedy\<close> is a quantifier with bounds \<open>mn\<close> and \<open>mx\<close>
  (\<open>None\<close> is no upper bound); as in ECMAScript, an iteration resets the captures of the
  groups inside it, and an iteration beyond \<open>mn\<close> that consumes nothing is rejected.
\<close>

datatype citem = CChar char | CRange char char | CDigit | CWord | CSpace

datatype regex =
    Eps
  | Lit char
  | Cls "citem list"
  | Dot
  | Bol
  | Eol
  | WordB
  | Seq regex regex
  | Alt regex regex
  | Rep regex nat "nat option" bool
  | Group nat regex

record mstate =
  left :: string
  right :: string
  caps :: "nat \<Rightarrow> string option"

text \<open>
  Canonicalize of ECMAScript (patterns without the flag \<^verbatim>\<open>u\<close>): with \<open>ic\<close>, a character is
  compared by its upper case when that is a single character of the range.
\<close>

definition canonicalize :: "bool \<Rightarrow> char \<Rightarrow> char" where
  "canonicalize ic c =
     (if ic \<and> ((97 \<le> code c \<and> code c \<le> 122) \<or> (224 \<le> code c \<and> code c \<le> 254 \<and> code c \<noteq> 247))
      then char_of (code c - 32) else c)"

text \<open>
  The character predicates as functions of the eight bits of a character: equations for
  evaluation, proved from the definitions.
\<close>

lemma canonicalize_code [code]:
  "canonicalize ic (Char b0 b1 b2 b3 b4 b5 b6 b7) =
     (if ic \<and> b6 \<and> b5 \<and>
         (if b7 then \<not> (b4 \<and> b2 \<and> b1 \<and> b0)
          else (b0 \<or> b1 \<or> b2 \<or> b3 \<or> b4) \<and> \<not> (b4 \<and> b3 \<and> (b2 \<or> (b1 \<and> b0))))
      then Char b0 b1 b2 b3 b4 False b6 b7 else Char b0 b1 b2 b3 b4 b5 b6 b7)"
  by (cases b0; cases b1; cases b2; cases b3; cases b4; cases b5; cases b6; cases b7;
      simp add: canonicalize_def code_def char_of_def bit_Suc_0_iff)

lemma isWordChar_code [code]:
  "isWordChar (Char b0 b1 b2 b3 b4 b5 b6 b7) =
     (\<not> b7 \<and>
      (if b6 then ((b0 \<or> b1 \<or> b2 \<or> b3 \<or> b4) \<and> \<not> (b4 \<and> b3 \<and> (b2 \<or> (b1 \<and> b0))))
                  \<or> (\<not> b5 \<and> b4 \<and> b3 \<and> b2 \<and> b1 \<and> b0)
       else b5 \<and> b4 \<and> \<not> (b3 \<and> (b2 \<or> b1))))"
  by (cases b0; cases b1; cases b2; cases b3; cases b4; cases b5; cases b6; cases b7;
      simp add: isWordChar_def code_def)

lemma isDigit_code [code]:
  "isDigit (Char b0 b1 b2 b3 b4 b5 b6 b7) =
     (\<not> b7 \<and> \<not> b6 \<and> b5 \<and> b4 \<and> \<not> (b3 \<and> (b2 \<or> b1)))"
  by (cases b0; cases b1; cases b2; cases b3; cases b4; cases b5; cases b6; cases b7;
      simp add: isDigit_def code_def)

lemma isSpace_code [code]:
  "isSpace (Char b0 b1 b2 b3 b4 b5 b6 b7) =
     (\<not> b6 \<and>
      (if b5 then \<not> (b0 \<or> b1 \<or> b2 \<or> b3 \<or> b4)
       else \<not> b7 \<and> \<not> b4 \<and> b3 \<and> (if b2 then \<not> b1 else b1 \<or> b0)))"
  by (cases b0; cases b1; cases b2; cases b3; cases b4; cases b5; cases b6; cases b7;
      simp add: isSpace_def code_def)

lemma isLineTerminator_code [code]:
  "isLineTerminator (Char b0 b1 b2 b3 b4 b5 b6 b7) =
     (\<not> b7 \<and> \<not> b6 \<and> \<not> b5 \<and> \<not> b4 \<and> b3 \<and> (if b2 then \<not> b1 \<and> b0 else b1 \<and> \<not> b0))"
  by (cases b0; cases b1; cases b2; cases b3; cases b4; cases b5; cases b6; cases b7;
      simp add: isLineTerminator_def code_def)

lemma lowerChar_code [code]:
  "lowerChar (Char b0 b1 b2 b3 b4 b5 b6 b7) =
     (if b6 \<and> \<not> b5 \<and>
         (if b7 then \<not> (b4 \<and> b2 \<and> b1 \<and> b0)
          else (b0 \<or> b1 \<or> b2 \<or> b3 \<or> b4) \<and> \<not> (b4 \<and> b3 \<and> (b2 \<or> (b1 \<and> b0))))
      then Char b0 b1 b2 b3 b4 True b6 b7 else Char b0 b1 b2 b3 b4 b5 b6 b7)"
  by (cases b0; cases b1; cases b2; cases b3; cases b4; cases b5; cases b6; cases b7;
      simp add: lowerChar_def code_def char_of_def bit_Suc_0_iff)

definition inRange :: "char \<Rightarrow> char \<Rightarrow> char \<Rightarrow> bool" where
  "inRange lo hi c = (code lo \<le> code c \<and> code c \<le> code hi)"

fun citem_match :: "bool \<Rightarrow> citem \<Rightarrow> char \<Rightarrow> bool" where
  "citem_match ic (CChar m) c = (canonicalize ic m = canonicalize ic c)"
| "citem_match ic (CRange lo hi) c =
     (inRange lo hi c \<or> (ic \<and> (inRange lo hi (lowerChar c) \<or> inRange lo hi (canonicalize True c))))"
| "citem_match ic CDigit c = isDigit c"
| "citem_match ic CWord c = isWordChar c"
| "citem_match ic CSpace c = isSpace c"

fun groups :: "regex \<Rightarrow> nat list" where
  "groups (Seq a b) = groups a @ groups b"
| "groups (Alt a b) = groups a @ groups b"
| "groups (Rep r mn mx g) = groups r"
| "groups (Group i r) = i # groups r"
| "groups r = []"

fun rsize :: "regex \<Rightarrow> nat" where
  "rsize (Seq a b) = Suc (rsize a + rsize b)"
| "rsize (Alt a b) = Suc (rsize a + rsize b)"
| "rsize (Rep r mn mx g) = Suc (rsize r)"
| "rsize (Group i r) = Suc (rsize r)"
| "rsize r = 0"

fun rmin :: "regex \<Rightarrow> nat" where
  "rmin (Rep r mn mx g) = mn"
| "rmin r = 0"

definition step :: "mstate \<Rightarrow> (char \<Rightarrow> bool) \<Rightarrow> mstate list" where
  "step s p = (case right s of [] \<Rightarrow> [] | c # cs \<Rightarrow> if p c then [s\<lparr>left := c # left s, right := cs\<rparr>] else [])"

definition isWordAt :: "string \<Rightarrow> bool" where
  "isWordAt cs = (case cs of [] \<Rightarrow> False | c # _ \<Rightarrow> isWordChar c)"

definition clearGroups :: "regex \<Rightarrow> mstate \<Rightarrow> mstate" where
  "clearGroups r s = s\<lparr>caps := (\<lambda>i. if i \<in> set (groups r) then None else caps s i)\<rparr>"

function matcher :: "bool \<Rightarrow> regex \<Rightarrow> mstate \<Rightarrow> mstate list" where
  "matcher ic Eps s = [s]"
| "matcher ic (Lit m) s = step s (\<lambda>c. canonicalize ic m = canonicalize ic c)"
| "matcher ic (Cls items) s = step s (\<lambda>c. list_ex (\<lambda>i. citem_match ic i c) items)"
| "matcher ic Dot s = step s (\<lambda>c. \<not> isLineTerminator c)"
| "matcher ic Bol s = (if left s = [] then [s] else [])"
| "matcher ic Eol s = (if right s = [] then [s] else [])"
| "matcher ic WordB s = (if isWordAt (left s) \<noteq> isWordAt (right s) then [s] else [])"
| "matcher ic (Seq a b) s = concat (map (matcher ic b) (matcher ic a s))"
| "matcher ic (Alt a b) s = matcher ic a s @ matcher ic b s"
| "matcher ic (Group i r) s =
     map (\<lambda>y. y\<lparr>caps := (caps y)(i := Some (take (length (right s) - length (right y)) (right s)))\<rparr>)
       (matcher ic r s)"
| "matcher ic (Rep r mn mx greedy) s =
     (if mx = Some 0 then [s]
      else
        let iter = concat (map
              (\<lambda>y. if mn = 0 \<and> length (right s) \<le> length (right y) then []
                   else matcher ic (Rep r (mn - 1) (map_option (\<lambda>m. m - 1) mx) greedy) y)
              (matcher ic r (clearGroups r s)))
        in if mn \<noteq> 0 then iter else if greedy then iter @ [s] else s # iter)"
  by pat_completeness auto
termination
  by (relation "inv_image (less_than <*lex*> less_than <*lex*> less_than)
        (\<lambda>(ic, r, s). (rsize r, rmin r, length (right s)))") (auto simp: clearGroups_def)

declare matcher.simps(11) [simp del]

lemmas matcher_Rep = matcher.simps(11)

lemma step_right: "y \<in> set (step s p) \<Longrightarrow> \<exists>c. right s = c # right y"
  by (cases "right s") (auto simp: step_def split: if_splits)

lemma matcher_Rep_cases:
  assumes "y \<in> set (matcher ic (Rep r mn mx greedy) s)"
  obtains (stop) "mx = Some 0" "y = s"
    | (skip) "mx \<noteq> Some 0" "mn = 0" "y = s"
    | (iter) t where "mx \<noteq> Some 0" "t \<in> set (matcher ic r (clearGroups r s))"
        "\<not> (mn = 0 \<and> length (right s) \<le> length (right t))"
        "y \<in> set (matcher ic (Rep r (mn - 1) (map_option (\<lambda>m. m - 1) mx) greedy) t)"
  using assms
  by (subst (asm) matcher_Rep) (auto simp: Let_def split: if_splits)

lemma matcher_suffix: "y \<in> set (matcher ic r s) \<Longrightarrow> \<exists>w. right s = w @ right y"
proof (induction ic r s arbitrary: y rule: matcher.induct)
  case (8 ic a b s)
  then obtain t where t: "t \<in> set (matcher ic a s)" "y \<in> set (matcher ic b t)" by auto
  from "8.IH"(1) [OF t(1)] "8.IH"(2) [OF t(1) t(2)] show ?case by auto
next
  case (11 ic r mn mx greedy s)
  from "11.prems" show ?case
  proof (cases rule: matcher_Rep_cases)
    case (iter t)
    from "11.IH"(1) [OF iter(1) iter(2)] obtain w1 where "right s = w1 @ right t"
      by (auto simp: clearGroups_def)
    moreover from "11.IH"(2) [OF iter(1) iter(2) iter(3) iter(4)]
    obtain w2 where "right t = w2 @ right y" by auto
    ultimately show ?thesis by auto
  qed auto
qed (auto dest: step_right split: if_splits)

subsection \<open>Searching, global matching and replacing\<close>

text \<open>
  A match is the pair of the state where it starts and the state where it ends.
  \<open>find_from\<close> is the search of \<^verbatim>\<open>RegExp.prototype.exec\<close>: the start positions are tried from
  left to right.
\<close>

type_synonym rmatch = "mstate \<times> mstate"

definition m_index :: "rmatch \<Rightarrow> nat" where
  "m_index m = length (left (fst m))"

definition m_end :: "rmatch \<Rightarrow> nat" where
  "m_end m = length (left (snd m))"

definition m_text :: "rmatch \<Rightarrow> string" where
  "m_text m = take (length (right (fst m)) - length (right (snd m))) (right (fst m))"

definition m_group :: "rmatch \<Rightarrow> nat \<Rightarrow> string option" where
  "m_group m i = caps (snd m) i"

fun find_from :: "bool \<Rightarrow> regex \<Rightarrow> string \<Rightarrow> string \<Rightarrow> rmatch option" where
  "find_from ic r l rt =
     (let s0 = \<lparr>left = l, right = rt, caps = (\<lambda>_. None)\<rparr> in
      case matcher ic r s0 of
        y # _ \<Rightarrow> Some (s0, y)
      | [] \<Rightarrow> (case rt of [] \<Rightarrow> None | c # cs \<Rightarrow> find_from ic r (c # l) cs))"

declare find_from.simps [simp del]

definition regex_exec :: "bool \<Rightarrow> regex \<Rightarrow> string \<Rightarrow> rmatch option" where
  "regex_exec ic r inp = find_from ic r [] inp"

definition regex_test :: "bool \<Rightarrow> regex \<Rightarrow> string \<Rightarrow> bool" where
  "regex_test ic r inp = (regex_exec ic r inp \<noteq> None)"

lemma matcher_length: "y \<in> set (matcher ic r s) \<Longrightarrow> length (right y) \<le> length (right s)"
  using matcher_suffix [of y ic r s] by auto

lemma find_from_bounds:
  "find_from ic r l rt = Some m \<Longrightarrow>
     length (right (fst m)) \<le> length rt \<and> length (right (snd m)) \<le> length (right (fst m))"
proof (induction ic r l rt rule: find_from.induct)
  case (1 ic r l rt)
  let ?s0 = "\<lparr>left = l, right = rt, caps = (\<lambda>_. None)\<rparr>"
  show ?case
  proof (cases "matcher ic r ?s0")
    case Nil
    with "1.prems" obtain c cs where rt: "rt = c # cs" and f: "find_from ic r (c # l) cs = Some m"
      by (subst (asm) find_from.simps) (auto simp: Let_def split: list.splits)
    from "1.IH" [OF refl Nil rt f] rt show ?thesis by simp
  next
    case (Cons y ys)
    with "1.prems" have m: "m = (?s0, y)"
      by (subst (asm) find_from.simps) (auto simp: Let_def)
    from Cons have "y \<in> set (matcher ic r ?s0)" by simp
    from matcher_length [OF this] m show ?thesis by simp
  qed
qed

text \<open>The loop of \<^verbatim>\<open>String.prototype.match\<close> and \<^verbatim>\<open>replace\<close> with a global pattern.\<close>

function scan :: "bool \<Rightarrow> regex \<Rightarrow> string \<Rightarrow> string \<Rightarrow> rmatch list" where
  "scan ic r l rt =
     (case find_from ic r l rt of
        None \<Rightarrow> []
      | Some m \<Rightarrow>
          m # (if length (right (snd m)) = length (right (fst m))
               then (case right (snd m) of [] \<Rightarrow> [] | c # cs \<Rightarrow> scan ic r (c # left (snd m)) cs)
               else scan ic r (left (snd m)) (right (snd m))))"
  by pat_completeness auto
termination
proof (relation "measure (\<lambda>(ic, r, l, rt). length rt)", goal_cases)
  case 1
  show ?case by simp
next
  case (2 ic r l rt m c cs)
  from find_from_bounds [OF 2(1)] 2(2,3) show ?case by simp
next
  case (3 ic r l rt m)
  from find_from_bounds [OF 3(1)] 3(2) show ?case by simp
qed

declare scan.simps [simp del]

definition match_all :: "bool \<Rightarrow> regex \<Rightarrow> string \<Rightarrow> string list" where
  "match_all ic r inp = map m_text (scan ic r [] inp)"

fun splice :: "string \<Rightarrow> nat \<Rightarrow> rmatch list \<Rightarrow> string \<Rightarrow> string" where
  "splice inp pos [] rep = drop pos inp"
| "splice inp pos (m # ms) rep = take (m_index m - pos) (drop pos inp) @ rep @ splice inp (m_end m) ms rep"

definition replace_all :: "bool \<Rightarrow> regex \<Rightarrow> string \<Rightarrow> string \<Rightarrow> string" where
  "replace_all ic r rep inp = splice inp 0 (scan ic r [] inp) rep"

text \<open>
  \<^verbatim>\<open>collectMatches\<close>: the loop calls \<^verbatim>\<open>exec\<close> on a global pattern until it returns null.
  Each call searches from the end of the previous match, so a pattern that matches the
  empty string makes the loop run forever: the result is \<open>None\<close> then.
\<close>

partial_function (option) collectMatches_from :: "bool \<Rightarrow> regex \<Rightarrow> string \<Rightarrow> string \<Rightarrow> rmatch list option" where
  "collectMatches_from ic r l rt =
     (case find_from ic r l rt of
        None \<Rightarrow> Some []
      | Some m \<Rightarrow> Option.bind (collectMatches_from ic r (left (snd m)) (right (snd m))) (\<lambda>ms. Some (m # ms)))"

declare collectMatches_from.simps [code]

definition collectMatches :: "bool \<Rightarrow> regex \<Rightarrow> string \<Rightarrow> rmatch list option" where
  "collectMatches ic r inp = collectMatches_from ic r [] inp"

subsection \<open>The patterns of parseNaturalLanguage\<close>

fun str :: "string \<Rightarrow> regex" where
  "str [] = Eps"
| "str [c] = Lit c"
| "str (c # cs) = Seq (Lit c) (str cs)"

fun seqs :: "regex list \<Rightarrow> regex" where
  "seqs [] = Eps"
| "seqs [r] = r"
| "seqs (r # rs) = Seq r (seqs rs)"

fun alts :: "regex list \<Rightarrow> regex" where
  "alts [] = Eps"
| "alts [r] = r"
| "alts (r # rs) = Alt r (alts rs)"

definition words :: "string list \<Rightarrow> regex" where
  "words ws = alts (map str ws)"

definition opt :: "regex \<Rightarrow> regex" where "opt r = Rep r 0 (Some 1) True"
definition star :: "regex \<Rightarrow> regex" where "star r = Rep r 0 None True"
definition plus :: "regex \<Rightarrow> regex" where "plus r = Rep r 1 None True"
definition lazy_plus :: "regex \<Rightarrow> regex" where "lazy_plus r = Rep r 1 None False"
definition times :: "nat \<Rightarrow> regex \<Rightarrow> regex" where "times n r = Rep r n (Some n) True"

definition digit :: regex where "digit = Cls [CDigit]"
definition sp :: regex where "sp = Cls [CSpace]"

definition numberPattern :: regex where
  "numberPattern = Seq (plus digit) (opt (Seq (Lit CHR ''.'') (plus digit)))"

definition dimSeparatorPattern :: regex where
  "dimSeparatorPattern = alts [Lit CHR ''x'', Lit (CHR 0xD7), Lit CHR ''*'', str ''by'', str ''por'']"

definition dimUnitPattern :: "nat \<Rightarrow> regex" where
  "dimUnitPattern i = Group i (alts [Seq (str ''in'') (opt (Lit CHR ''.'')), Seq (str ''inch'') (opt (str ''es'')),
      str ''cm'', str ''cms'', Seq (str ''centimetro'') (opt (Lit CHR ''s'')),
      Seq (str ''pulgada'') (opt (Lit CHR ''s'')), Lit (CHR 0x22)])"

definition weightUnitPattern :: "nat \<Rightarrow> regex" where
  "weightUnitPattern i = Group i (alts [str ''lb'', str ''lbs'', Seq (str ''pound'') (opt (Lit CHR ''s'')),
      Seq (str ''libra'') (opt (Lit CHR ''s'')), str ''kg'', str ''kgs'', Seq (str ''kilo'') (opt (Lit CHR ''s'')),
      Seq (str ''kilogramo'') (opt (Lit CHR ''s''))])"

definition dimOnlyPattern :: regex where
  "dimOnlyPattern = seqs [Group 1 numberPattern, star sp, opt (dimUnitPattern 2), star sp, dimSeparatorPattern, star sp,
      Group 3 numberPattern, star sp, opt (dimUnitPattern 4), star sp, dimSeparatorPattern, star sp,
      Group 5 numberPattern, star sp, opt (dimUnitPattern 6)]"

definition boxPattern :: regex where
  "boxPattern = seqs [dimOnlyPattern, star sp, star (Alt (Lit CHR '','') sp),
      opt (alts [Seq (str ''weighing'') (plus sp), Seq (str ''weight'') (plus sp), Seq (str ''weighs'') (plus sp),
                 Seq (str ''peso'') (plus sp), Seq (str ''pesa'') (plus sp), Seq (str ''pesando'') (plus sp)]),
      Group 7 numberPattern, opt (Seq (star sp) (weightUnitPattern 8))]"

definition weightPattern :: regex where
  "weightPattern = seqs [Group 1 numberPattern, star sp, weightUnitPattern 2, WordB]"

definition weightWordPattern :: regex where
  "weightWordPattern = seqs [words [''weight'', ''weighs'', ''weighing'', ''peso'', ''pesa'', ''pesando''], star sp,
      Group 1 numberPattern, opt (Seq (star sp) (weightUnitPattern 2))]"

definition locationChar :: regex where
  "locationChar = Cls [CWord, CSpace, CChar CHR '','', CChar CHR ''.'', CChar CHR ''-'']"

definition fromPattern :: regex where
  "fromPattern = seqs [WordB, words [''from'', ''desde'', ''de''], plus sp, Group 1 (lazy_plus locationChar),
      Alt (seqs [plus sp, words [''to'', ''a'', ''hasta''], plus sp]) Eol]"

definition toPattern :: regex where
  "toPattern = seqs [WordB, words [''to'', ''a'', ''hasta''], plus sp, Group 1 (lazy_plus locationChar),
      alts [Seq (plus sp) (words [''from'', ''de'', ''desde'']), Eol, Lit CHR ''.'', Lit (CHR 0x0A)]]"

definition zipPattern :: regex where
  "zipPattern = seqs [WordB, times 5 digit, opt (Group 1 (Seq (Lit CHR ''-'') (times 4 digit))), WordB]"

definition numberWordPattern :: regex where
  "numberWordPattern = seqs [WordB, numberPattern, WordB]"

definition keywordPattern :: regex where
  "keywordPattern = seqs [WordB, Group 1 (words [''ship'', ''shipping'', ''box'', ''boxes'', ''caja'', ''cajas'',
      ''paquete'', ''paquetes'', ''pallet'', ''pallets'', ''palet'', ''palets'', ''paleta'', ''paletas'',
      ''crate'', ''crates'', ''package'', ''packages'', ''parcel'', ''parcels'', ''freight'', ''envio'',
      ''enviar'', ''weighing'', ''weight'', ''weighs'', ''peso'', ''pesa'', ''pesando'', ''lb'', ''lbs'',
      ''pound'', ''pounds'', ''libra'', ''libras'', ''kg'', ''kgs'', ''kilo'', ''kilos'', ''kilogramo'',
      ''kilogramos'', ''inch'', ''inches'', ''in'', ''cm'', ''cms'', ''centimetro'', ''centimetros'',
      ''pulgada'', ''pulgadas'']), WordB]"

definition simpleRoutePattern :: regex where
  "simpleRoutePattern = seqs [opt (words [''from'', ''de'', ''desde'']), star sp, Group 1 (lazy_plus Dot),
      plus sp, words [''to'', ''a'', ''hasta''], plus sp, Group 2 (plus Dot)]"

definition US_ZIP_REGEX :: regex where
  "US_ZIP_REGEX = seqs [Bol, times 5 digit, opt (Group 1 (Seq (Lit CHR ''-'') (times 4 digit))), Eol]"

section \<open>Parsing the request\<close>

definition INTL_INDICATORS :: "string list" where
  "INTL_INDICATORS = [''china'', ''shanghai'', ''beijing'', ''uk'', ''london'', ''germany'', ''france'', ''japan'',
     ''tokyo'', ''canada'', ''mexico'', ''india'', ''australia'', ''brazil'', ''brasil'', ''spain'', ''espana'',
     ''italy'', ''netherlands'', ''korea'', ''vietnam'', ''thailand'', ''singapore'', ''hong kong'', ''taiwan'',
     ''colombia'', ''argentina'', ''peru'', ''chile'', ''venezuela'']"

definition INCHES_PER_CM :: number where "INCHES_PER_CM = Fin 0.3937007874"
definition POUNDS_PER_KG :: number where "POUNDS_PER_KG = Fin 2.2046226218"

definition normalizeLength :: "number \<Rightarrow> string option \<Rightarrow> number" where
  "normalizeLength v unit =
     (if \<not> truthy_str unit then v
      else let normalized = toLowerCase (the unit)
           in if normalized = ''cm'' \<or> normalized = ''cms'' \<or> startsWith normalized ''centimetro''
              then num_mul v INCHES_PER_CM
              else if normalized = [CHR 0x22] \<or> normalized = ''in'' \<or> normalized = ''inch''
                      \<or> normalized = ''inches'' \<or> startsWith normalized ''pulgada''
              then v
              else v)"

definition normalizeWeight :: "number \<Rightarrow> string option \<Rightarrow> number" where
  "normalizeWeight v unit =
     (if \<not> truthy_str unit then v
      else let normalized = toLowerCase (the unit)
           in if normalized = ''kg'' \<or> normalized = ''kgs'' \<or> startsWith normalized ''kilo''
                 \<or> startsWith normalized ''kilogramo''
              then num_mul v POUNDS_PER_KG
              else if normalized = ''lb'' \<or> normalized = ''lbs'' \<or> startsWith normalized ''pound''
                      \<or> startsWith normalized ''libra''
              then v
              else v)"

text \<open>
  The text of \<^verbatim>\<open>match[i]\<close>; a group that did not take part is \<^verbatim>\<open>undefined\<close>. The groups
  read as text by the module take part in every match of their pattern.
\<close>

definition groupText :: "rmatch \<Rightarrow> nat \<Rightarrow> string" where
  "groupText m i = (case m_group m i of None \<Rightarrow> ''undefined'' | Some t \<Rightarrow> t)"

definition groupNumber :: "rmatch \<Rightarrow> nat \<Rightarrow> number" where
  "groupNumber m i = parseFloat (groupText m i)"

definition boxParcel :: "rmatch \<Rightarrow> Parcel" where
  "boxParcel m =
     \<lparr>p_length = normalizeLength (groupNumber m 1) (m_group m 2),
      p_width = normalizeLength (groupNumber m 3) (m_group m 4),
      p_height = normalizeLength (groupNumber m 5) (m_group m 6),
      p_weight = normalizeWeight (groupNumber m 7) (m_group m 8)\<rparr>"

fun pairedParcels :: "rmatch list \<Rightarrow> rmatch list \<Rightarrow> number option \<Rightarrow> Parcel list" where
  "pairedParcels [] weightMatches defaultWeight = []"
| "pairedParcels (dm # dims) weightMatches defaultWeight =
     \<lparr>p_length = normalizeLength (groupNumber dm 1) (m_group dm 2),
      p_width = normalizeLength (groupNumber dm 3) (m_group dm 4),
      p_height = normalizeLength (groupNumber dm 5) (m_group dm 6),
      p_weight = (case weightMatches of
                    wm # _ \<Rightarrow> normalizeWeight (groupNumber wm 1) (m_group wm 2)
                  | [] \<Rightarrow> (case defaultWeight of Some d \<Rightarrow> d | None \<Rightarrow> Fin 10))\<rparr>
     # pairedParcels dims (tl weightMatches) defaultWeight"

definition usWordsPattern :: regex where
  "usWordsPattern = seqs [WordB, Group 1 (words [''usa'', ''us'', ''united states'', ''america'']), WordB]"

definition usCitiesPattern :: regex where
  "usCitiesPattern = seqs [WordB, Group 1 (words [''miami'', ''los angeles'', ''new york'', ''chicago'', ''houston'',
     ''phoenix'', ''philadelphia'', ''san antonio'', ''san diego'', ''dallas'', ''san jose'', ''austin'',
     ''jacksonville'', ''fort worth'', ''columbus'', ''charlotte'', ''seattle'', ''denver'', ''boston'',
     ''detroit'', ''nashville'', ''portland'', ''las vegas'', ''memphis'', ''louisville'', ''baltimore'',
     ''milwaukee'', ''albuquerque'', ''tucson'', ''fresno'', ''sacramento'', ''atlanta'', ''kansas city'',
     ''colorado springs'', ''omaha'', ''raleigh'', ''virginia beach'', ''oakland'', ''minneapolis'', ''tulsa'',
     ''wichita'', ''cleveland'', ''tampa'', ''orlando'']), WordB]"

definition countryKeywords :: "(string list \<times> string) list" where
  "countryKeywords =
     [([''china'', ''shanghai'', ''beijing'', ''shenzhen'', ''guangzhou''], ''CN''),
      ([''uk'', ''united kingdom'', ''london'', ''manchester'', ''birmingham'', ''england'', ''britain''], ''GB''),
      ([''germany'', ''berlin'', ''munich'', ''frankfurt'', ''hamburg''], ''DE''),
      ([''france'', ''paris'', ''lyon'', ''marseille''], ''FR''),
      ([''japan'', ''tokyo'', ''osaka'', ''kyoto''], ''JP''),
      ([''canada'', ''toronto'', ''vancouver'', ''montreal'', ''ottawa''], ''CA''),
      ([''mexico'', ''mexico city'', ''guadalajara'', ''cancun''], ''MX''),
      ([''india'', ''mumbai'', ''delhi'', ''bangalore''], ''IN''),
      ([''australia'', ''sydney'', ''melbourne'', ''brisbane''], ''AU''),
      ([''brazil'', ''brasil'', ''rio de janeiro'', ''sao paulo''], ''BR''),
      ([''puerto rico'', ''san juan''], ''US''),
      ([''spain'', ''espana'', ''madrid'', ''barcelona''], ''ES''),
      ([''colombia'', ''bogota'', ''medellin'', ''cali''], ''CO''),
      ([''argentina'', ''buenos aires'', ''cordoba'', ''rosario''], ''AR''),
      ([''peru'', ''lima''], ''PE''),
      ([''chile'', ''santiago''], ''CL''),
      ([''venezuela'', ''caracas''], ''VE'')]"

fun firstCountry :: "(string list \<times> string) list \<Rightarrow> string \<Rightarrow> string" where
  "firstCountry [] loc = ''US''"
| "firstCountry ((ws, cc) # rest) loc = (if regex_test True (words ws) loc then cc else firstCountry rest loc)"

definition detectCountry :: "string \<Rightarrow> string" where
  "detectCountry location =
     (let loc = toLowerCase location
      in if regex_test False US_ZIP_REGEX location \<or> regex_test True usWordsPattern loc
            \<or> regex_test True usCitiesPattern loc
         then ''US''
         else firstCountry countryKeywords loc)"

definition palletPattern :: regex where
  "palletPattern = words [''pallet'', ''freight'', ''lcl'', ''fcl'', ''container'']"

definition strippedText :: "string \<Rightarrow> string" where
  "strippedText normalizedInput =
     trim (replace_all False (plus sp) '' ''
       (replace_all True keywordPattern '' ''
         (replace_all False numberWordPattern '' ''
           (replace_all True weightPattern '' ''
             (replace_all True dimOnlyPattern '' ''
               (replace_all True boxPattern '' '' normalizedInput))))))"

text \<open>
  The extraction of the parcels: the combined pattern first, and when it matches nowhere
  the dimension triples paired by index with the weight expressions.
\<close>

definition extractParcels :: "string \<Rightarrow> Parcel list option" where
  "extractParcels normalizedInput =
     (let weightWordMatch = regex_exec True weightWordPattern normalizedInput;
          defaultWeight = (case weightWordMatch of
                             Some m \<Rightarrow> Some (normalizeWeight (groupNumber m 1) (m_group m 2))
                           | None \<Rightarrow> None)
      in Option.bind (collectMatches True boxPattern normalizedInput) (\<lambda>matches.
           if matches \<noteq> [] then Some (map boxParcel matches)
           else Option.bind (collectMatches True dimOnlyPattern normalizedInput) (\<lambda>dimMatches.
                Option.bind (collectMatches True weightPattern normalizedInput) (\<lambda>weightMatches.
                Some (pairedParcels dimMatches weightMatches defaultWeight)))))"

text \<open>The extraction of origin and destination.\<close>

definition extractRoute :: "string \<Rightarrow> string \<times> string" where
  "extractRoute normalizedInput =
     (let fromMatch = regex_exec True fromPattern normalizedInput;
          toMatch = regex_exec True toPattern normalizedInput;
          zipCodes = match_all False zipPattern normalizedInput;
          origin0 = (case fromMatch of
                       Some m \<Rightarrow> trim (groupText m 1)
                     | None \<Rightarrow> (case zipCodes of z # _ \<Rightarrow> z | [] \<Rightarrow> []));
          destination0 = (case toMatch of
                       Some m \<Rightarrow> trim (groupText m 1)
                     | None \<Rightarrow> (case zipCodes of _ # z # _ \<Rightarrow> z | _ \<Rightarrow> []))
      in if origin0 = [] \<or> destination0 = [] then
           (case regex_exec True simpleRoutePattern (strippedText normalizedInput) of
              Some m \<Rightarrow> (if origin0 = [] then trim (groupText m 1) else origin0,
                         if destination0 = [] then trim (groupText m 2) else destination0)
            | None \<Rightarrow> (origin0, destination0))
         else (origin0, destination0))"

text \<open>The classification of the shipment, from \<^verbatim>\<open>const originCountry = detectCountry(origin)\<close>.\<close>

definition classify :: "string \<Rightarrow> Parcel list \<Rightarrow> string \<Rightarrow> string \<Rightarrow> ParsedRequest" where
  "classify text ps orig dest =
     (let originCountry1 = detectCountry orig;
          destCountry1 = detectCountry dest;
          isInternational1 = (originCountry1 \<noteq> destCountry1
             \<or> list_ex (\<lambda>ind. str_includes text ind) INTL_INDICATORS);
          isPallet1 = regex_test True palletPattern text;
          totalWeight = totalWeightOf ps;
          totalVolume = totalVolumeOf ps;
          multipleBoxes = (length ps > 1);
          heavyShipment = num_gt totalWeight (Fin 150);
          largeVolume = num_gt totalVolume (Fin 50000);
          needsBothQuotes1 = (multipleBoxes \<or> (isInternational1 \<and> \<not> isPallet1) \<or> heavyShipment \<or> largeVolume)
      in \<lparr>parcels = ps, origin = orig, destination = dest,
          originCountry = originCountry1, destCountry = destCountry1,
          isInternational = isInternational1, isPallet = isPallet1,
          needsBothQuotes = needsBothQuotes1\<rparr>)"

text \<open>parseNaturalLanguage; \<open>None\<close> when it does not return.\<close>

definition parseNaturalLanguage :: "string \<Rightarrow> ParsedRequest option" where
  "parseNaturalLanguage input =
     (let normalizedInput = stripDiacritics input;
          text = toLowerCase normalizedInput
      in Option.bind (extractParcels normalizedInput) (\<lambda>ps.
           let (orig, dest) = extractRoute normalizedInput
           in Some (classify text ps orig dest)))"

section \<open>Address resolution\<close>

definition US_STATE_ABBREVIATIONS :: "(string \<times> string) list" where
  "US_STATE_ABBREVIATIONS =
     [(''alabama'', ''AL''), (''alaska'', ''AK''), (''arizona'', ''AZ''), (''arkansas'', ''AR''),
      (''california'', ''CA''), (''colorado'', ''CO''), (''connecticut'', ''CT''), (''delaware'', ''DE''),
      (''florida'', ''FL''), (''georgia'', ''GA''), (''hawaii'', ''HI''), (''idaho'', ''ID''),
      (''illinois'', ''IL''), (''indiana'', ''IN''), (''iowa'', ''IA''), (''kansas'', ''KS''),
      (''kentucky'', ''KY''), (''louisiana'', ''LA''), (''maine'', ''ME''), (''maryland'', ''MD''),
      (''massachusetts'', ''MA''), (''michigan'', ''MI''), (''minnesota'', ''MN''), (''mississippi'', ''MS''),
      (''missouri'', ''MO''), (''montana'', ''MT''), (''nebraska'', ''NE''), (''nevada'', ''NV''),
      (''new hampshire'', ''NH''), (''new jersey'', ''NJ''), (''new mexico'', ''NM''), (''new york'', ''NY''),
      (''north carolina'', ''NC''), (''north dakota'', ''ND''), (''ohio'', ''OH''), (''oklahoma'', ''OK''),
      (''oregon'', ''OR''), (''pennsylvania'', ''PA''), (''rhode island'', ''RI''), (''south carolina'', ''SC''),
      (''south dakota'', ''SD''), (''tennessee'', ''TN''), (''texas'', ''TX''), (''utah'', ''UT''),
      (''vermont'', ''VT''), (''virginia'', ''VA''), (''washington'', ''WA''), (''west virginia'', ''WV''),
      (''wisconsin'', ''WI''), (''wyoming'', ''WY''), (''puerto rico'', ''PR'')]"

definition extractZip :: "string \<Rightarrow> string option" where
  "extractZip location =
     (case regex_exec False zipPattern location of
        None \<Rightarrow> None
      | Some m \<Rightarrow> Some (take 5 (m_text m)))"

text \<open>
  The table is read at its own keys only; the properties an object inherits from its
  prototype are outside the model.
\<close>

definition normalizeState :: "string option \<Rightarrow> string option" where
  "normalizeState st =
     (if \<not> truthy_str st then None
      else let trimmed = trim (the st)
           in if length trimmed = 2 then Some (toUpperCase trimmed)
              else map_of US_STATE_ABBREVIATIONS (toLowerCase trimmed))"

text \<open>\<^verbatim>\<open>value.split(/\s+/)\<close>\<close>

function split_ws :: "string \<Rightarrow> string list" where
  "split_ws v =
     (let word = takeWhile (\<lambda>c. \<not> isSpace c) v;
          rest = dropWhile (\<lambda>c. \<not> isSpace c) v
      in if rest = [] then [word] else word # split_ws (dropWhile isSpace rest))"
  by pat_completeness auto
termination
proof (relation "measure length", goal_cases)
  case 1
  show ?case by simp
next
  case (2 v word rest)
  have "length (dropWhile isSpace rest) \<le> length rest"
    by (rule length_dropWhile_le)
  moreover have "length rest \<le> length v"
    using 2(2) by (simp add: length_dropWhile_le)
  moreover have "length (dropWhile isSpace rest) \<noteq> length rest"
  proof
    assume "length (dropWhile isSpace rest) = length rest"
    then have "dropWhile isSpace rest = rest"
      by (metis append_eq_conv_conj append_self_conv2 length_0_conv takeWhile_dropWhile_id length_append add_cancel_left_left)
    with 2(3) have "\<not> isSpace (hd rest)"
      by (metis hd_dropWhile)
    moreover have "isSpace (hd rest)"
      using 2(2,3) hd_dropWhile [of "\<lambda>c. \<not> isSpace c" v] by auto
    ultimately show False by simp
  qed
  ultimately show ?case by simp
qed

declare split_ws.simps [simp del]

definition titleWord :: "string \<Rightarrow> string" where
  "titleWord word = (case word of [] \<Rightarrow> [] | c # cs \<Rightarrow> toUpperCase [c] @ toLowerCase cs)"

fun join :: "string \<Rightarrow> string list \<Rightarrow> string" where
  "join sep [] = []"
| "join sep [x] = x"
| "join sep (x # xs) = x @ sep @ join sep xs"

definition toTitleCase :: "string \<Rightarrow> string" where
  "toTitleCase v = join '' '' (map titleWord (split_ws v))"

text \<open>\<^verbatim>\<open>location.split(',')[0] || ''\<close>\<close>

definition firstSegment :: "string \<Rightarrow> string" where
  "firstSegment location = takeWhile (\<lambda>c. c \<noteq> CHR '','') location"

definition stateAbbreviationPattern :: regex where
  "stateAbbreviationPattern =
     seqs [Lit CHR '','', star sp, Group 1 (times 2 (Cls [CRange CHR ''A'' CHR ''Z''])), WordB]"

definition extractStateAbbreviation :: "string \<Rightarrow> string option" where
  "extractStateAbbreviation location =
     (case regex_exec True stateAbbreviationPattern location of
        None \<Rightarrow> None
      | Some m \<Rightarrow> Some (toUpperCase (groupText m 1)))"

text \<open>\<^verbatim>\<open>x?.match(/\d{5}/)?.[0]\<close>\<close>

definition fiveDigits :: "string option \<Rightarrow> string option" where
  "fiveDigits x =
     (case x of
        None \<Rightarrow> None
      | Some v \<Rightarrow> map_option m_text (regex_exec False (times 5 digit) v))"

record ZipDetails =
  zd_city :: "string option"
  zd_state :: "string option"

record Geocoded =
  g_city :: "string option"
  g_state :: "string option"
  g_zip :: "string option"
  g_lat :: "string option"
  g_lon :: "string option"

text \<open>
  The four lookups catch every exception and return null (\<open>None\<close>) then. Each sends one
  request, which the state logs.
\<close>

definition lookupZipDetails :: "world \<Rightarrow> string \<Rightarrow> sys_state \<Rightarrow> ZipDetails option \<times> sys_state" where
  "lookupZipDetails w z s =
     (case zippopotamZip w (length (calls s)) z of
        Response True (Some (place # _)) \<Rightarrow>
          Some \<lparr>zd_city = place_name place, zd_state = state_abbreviation place\<rparr>
      | _ \<Rightarrow> None,
      send (ZipLookup z) s)"

definition geocodeCity :: "world \<Rightarrow> string \<Rightarrow> sys_state \<Rightarrow> Geocoded option \<times> sys_state" where
  "geocodeCity w location s =
     (let query = location @ '', USA''
      in (case nominatimSearch w (length (calls s)) query of
            Response True (Some (first # _)) \<Rightarrow>
              (case nr_address first of
                 None \<Rightarrow> None
               | Some address \<Rightarrow>
                   Some \<lparr>g_city = str_or (str_or (str_or (na_city address) (na_town address)) (na_village address))
                                     (na_hamlet address),
                         g_state = na_state address,
                         g_zip = fiveDigits (na_postcode address),
                         g_lat = nr_lat first,
                         g_lon = nr_lon first\<rparr>)
          | _ \<Rightarrow> None,
          send (NominatimSearch query) s))"

definition reverseGeocodeZip :: "world \<Rightarrow> string \<Rightarrow> string \<Rightarrow> sys_state \<Rightarrow> string option \<times> sys_state" where
  "reverseGeocodeZip w lat lon s =
     (case nominatimReverse w (length (calls s)) lat lon of
        Response True (Some (Some address)) \<Rightarrow> fiveDigits (na_postcode address)
      | _ \<Rightarrow> None,
      send (NominatimReverse lat lon) s)"

definition lookupZipByCityState :: "world \<Rightarrow> string \<Rightarrow> string \<Rightarrow> sys_state \<Rightarrow> string option \<times> sys_state" where
  "lookupZipByCityState w cty st s =
     (case zippopotamCity w (length (calls s)) st cty of
        Response True (Some (place # _)) \<Rightarrow> (if truthy_str (post_code place) then post_code place else None)
      | _ \<Rightarrow> None,
      send (CityStateLookup st cty) s)"


subsection \<open>resolveUsAddress\<close>

definition cacheSet :: "string \<Rightarrow> UsAddress \<Rightarrow> sys_state \<Rightarrow> sys_state" where
  "cacheSet k a s = s\<lparr>LOCATION_CACHE := (LOCATION_CACHE s)(k \<mapsto> a)\<rparr>"

text \<open>The block guarded by \<^verbatim>\<open>if (zipFromInput)\<close>: \<open>Some\<close> when it returns from the function.\<close>

definition resolveByZip ::
  "world \<Rightarrow> string \<Rightarrow> string option \<Rightarrow> string \<Rightarrow> sys_state \<Rightarrow> UsAddress option \<times> sys_state" where
  "resolveByZip w location stateHint zipFromInput s =
     (let (details, s1) = lookupZipDetails w zipFromInput s;
          resolved = \<lparr>city = str_or_default (Option.bind details zd_city) (toTitleCase (firstSegment location)),
                      state = str_or_default (str_or (normalizeState (Option.bind details zd_state)) stateHint) [],
                      zip = zipFromInput\<rparr>
      in if city resolved \<noteq> [] \<and> state resolved \<noteq> []
         then (Some resolved, cacheSet (toLowerCase location) resolved s1)
         else (None, s1))"

text \<open>The rest of the function, from \<^verbatim>\<open>const geocoded = await geocodeCity(location)\<close>.\<close>

definition resolveByGeocoding ::
  "world \<Rightarrow> string \<Rightarrow> string option \<Rightarrow> sys_state \<Rightarrow> UsAddress option \<times> sys_state" where
  "resolveByGeocoding w location stateHint s =
     (let (geocoded, s1) = geocodeCity w location s;
          zip0 = fiveDigits (Option.bind geocoded g_zip);
          lat = Option.bind geocoded g_lat;
          lon = Option.bind geocoded g_lon;
          (zip1, s2) = (if \<not> truthy_str zip0 \<and> truthy_str lat \<and> truthy_str lon
                        then reverseGeocodeZip w (the lat) (the lon) s1
                        else (zip0, s1));
          cty = str_or_default (Option.bind geocoded g_city) (toTitleCase (firstSegment location));
          st = str_or_default (str_or (normalizeState (Option.bind geocoded g_state)) stateHint) [];
          (zip2, s3) = (if \<not> truthy_str zip1 \<and> cty \<noteq> [] \<and> st \<noteq> []
                        then lookupZipByCityState w cty st s2
                        else (zip1, s2))
      in if truthy_str zip2 then
           (let (details, s4) = lookupZipDetails w (the zip2) s3;
                resolved = \<lparr>city = str_or_default (Option.bind details zd_city) cty,
                            state = str_or_default (normalizeState (Option.bind details zd_state)) st,
                            zip = the zip2\<rparr>
            in if city resolved \<noteq> [] \<and> state resolved \<noteq> []
               then (Some resolved, cacheSet (toLowerCase location) resolved s4)
               else (None, s4))
         else (None, s3))"

definition resolveUsAddress :: "world \<Rightarrow> string \<Rightarrow> sys_state \<Rightarrow> UsAddress option \<times> sys_state" where
  "resolveUsAddress w location s =
     (let cacheKey = toLowerCase location
      in case LOCATION_CACHE s cacheKey of
           Some cached \<Rightarrow> (Some cached, s)
         | None \<Rightarrow>
             let stateHint = normalizeState (extractStateAbbreviation location);
                 zipFromInput = extractZip location
             in if truthy_str zipFromInput then
                  (case resolveByZip w location stateHint (the zipFromInput) s of
                     (Some resolved, s1) \<Rightarrow> (Some resolved, s1)
                   | (None, s1) \<Rightarrow> resolveByGeocoding w location stateHint s1)
                else resolveByGeocoding w location stateHint s)"

definition buildShippoAddress ::
  "world \<Rightarrow> string \<Rightarrow> string \<Rightarrow> sys_state \<Rightarrow> ShippoAddress option \<times> sys_state" where
  "buildShippoAddress w location cc s =
     (if cc \<noteq> ''US'' then
        (let (geocoded, s1) = geocodeCity w location s;
             z = fiveDigits (Option.bind geocoded g_zip)
         in (Some \<lparr>city = str_or_default (Option.bind geocoded g_city) (toTitleCase (firstSegment location)),
                   state = str_or_default (normalizeState (Option.bind geocoded g_state)) [],
                   zip = str_or_default z [],
                   country = cc\<rparr>, s1))
      else
        (case resolveUsAddress w location s of
           (None, s1) \<Rightarrow> (None, s1)
         | (Some resolved, s1) \<Rightarrow>
             (Some \<lparr>city = city resolved, state = state resolved, zip = zip resolved, country = ''US''\<rparr>, s1)))"

section \<open>The small-parcel provider\<close>

definition DEFAULT_CONTACT_EMAIL :: string where
  "DEFAULT_CONTACT_EMAIL = ''Jason@epmarine.com''"

definition DEFAULT_CONTACT_PHONE :: string where
  "DEFAULT_CONTACT_PHONE = ''786-603-7883''"

definition shippoQuote :: "world \<Rightarrow> ShippoRate \<Rightarrow> QuoteResult" where
  "shippoQuote w rate =
     \<lparr>provider = sr_provider rate,
      service = str_or_default (str_or (sr_servicelevel rate) (sr_servicelevel_name rate)) ''Standard'',
      price = parseFloat (sr_amount rate),
      currency = sr_currency rate,
      transitDays = (if truthy_numopt (sr_estimated_days rate)
                     then Some (numberToString w (the (sr_estimated_days rate)) @ '' days'')
                     else sr_duration_terms rate),
      mode = None\<rparr>"

text \<open>
  The body of the \<^verbatim>\<open>try\<close> block of getShippoQuotes. \<^verbatim>\<open>Promise.all\<close> starts the two
  address resolutions together; here the origin is resolved first and the destination after it.
  A rejected fetch and a body that is not JSON throw.
\<close>

definition getShippoQuotes_try ::
  "world \<Rightarrow> ParsedRequest \<Rightarrow> string option \<Rightarrow> string option \<Rightarrow> sys_state
     \<Rightarrow> (exn + QuoteResult list) \<times> sys_state" where
  "getShippoQuotes_try w parsed email phone s =
     (let contactEmail = str_or_default email DEFAULT_CONTACT_EMAIL;
          contactPhone = str_or_default phone DEFAULT_CONTACT_PHONE;
          (originResolved, s1) = buildShippoAddress w (origin parsed) (originCountry parsed) s;
          (destinationResolved, s2) = buildShippoAddress w (destination parsed) (destCountry parsed) s1
      in case (originResolved, destinationResolved) of
           (Some addressFrom, Some addressTo) \<Rightarrow>
             (let s3 = send (ShippoShipment addressFrom addressTo (parcels parsed) contactEmail contactPhone) s2
              in case shippoShipments w (length (calls s2)) addressFrom addressTo (parcels parsed)
                        contactEmail contactPhone of
                   Rejected \<Rightarrow> (Inl NetworkError, s3)
                 | Response ok None \<Rightarrow> (Inl SyntaxError, s3)
                 | Response ok (Some None) \<Rightarrow> (Inr [], s3)
                 | Response ok (Some (Some rates)) \<Rightarrow> (Inr (sortByPrice w (map (shippoQuote w) rates)), s3))
         | _ \<Rightarrow> (Inr [], s2))"

definition getShippoQuotes ::
  "world \<Rightarrow> ParsedRequest \<Rightarrow> string option \<Rightarrow> string option \<Rightarrow> sys_state
     \<Rightarrow> (exn + QuoteResult list) \<times> sys_state" where
  "getShippoQuotes w parsed email phone s =
     (if \<not> truthy_str (SHIPPO_API_KEY w) then (Inr [], s)
      else case getShippoQuotes_try w parsed email phone s of
             (Inl e, s1) \<Rightarrow> (Inr [], s1)
           | (Inr quotes, s1) \<Rightarrow> (Inr quotes, s1))"

section \<open>The request handler\<close>

record PostBody =
  request :: "string option"
  email :: "string option"
  phone :: "string option"

record QuoteResponse =
  status :: nat
  success :: bool
  quotes :: "QuoteResult list"
  shippo :: "QuoteResult list option"
  freightos :: "QuoteResult list option"
  routing :: string
  parsed :: ParsedRequest
  missingInfo :: "string list option"
  error :: "string option"

definition emptyParsed :: ParsedRequest where
  "emptyParsed =
     \<lparr>parcels = [], origin = [], destination = [], originCountry = ''US'', destCountry = ''US'',
      isInternational = False, isPallet = False, needsBothQuotes = False\<rparr>"

definition errorResponse :: "nat \<Rightarrow> string \<Rightarrow> QuoteResponse" where
  "errorResponse st msg =
     \<lparr>status = st, success = False, quotes = [], shippo = None, freightos = None, routing = ''error'',
      parsed = emptyParsed, missingInfo = None, error = Some msg\<rparr>"

text \<open>
  saveToDatabase returns at once without a database URL; otherwise it sends one insert,
  and catches whatever that throws.
\<close>

definition saveToDatabase :: "world \<Rightarrow> string \<Rightarrow> sys_state \<Rightarrow> sys_state" where
  "saveToDatabase w req s = (if \<not> truthy_str (DATABASE_URL w) then s else send (DbInsert req) s)"

definition missingInfoOf :: "ParsedRequest \<Rightarrow> string list" where
  "missingInfoOf p =
     (if parcels p = [] then [''dimensions''] else []) @
     (if origin p = [] then [''origin''] else []) @
     (if destination p = [] then [''destination''] else [])"

text \<open>
  The handler after \<^verbatim>\<open>const parsed = parseNaturalLanguage(request)\<close>. An exception of a
  provider function would reach the outer \<^verbatim>\<open>catch\<close>.
\<close>

definition quoteParsed ::
  "world \<Rightarrow> string \<Rightarrow> string option \<Rightarrow> string option \<Rightarrow> ParsedRequest \<Rightarrow> sys_state
     \<Rightarrow> QuoteResponse \<times> sys_state" where
  "quoteParsed w req em ph p s =
     (let missing = missingInfoOf p
      in if missing \<noteq> [] then
           (\<lparr>status = 200, success = False, quotes = [], shippo = None, freightos = None,
             routing = ''incomplete'', parsed = p, missingInfo = Some missing,
             error = Some (''Missing information: '' @ join '', '' missing @
               ''. Please include package dimensions (LxWxH), weight, origin, and destination.'')\<rparr>, s)
         else
           (let (rt, sq, fq, s1) =
                  (if isPallet p \<or> (isInternational p \<and> \<not> needsBothQuotes p) then
                     (let (f, s') = getFreightosQuotes w p s
                      in (''Freightos Only (Freight)'', Inr [], f, s'))
                   else if \<not> isInternational p \<and> length (parcels p) = 1
                           \<and> num_lt (p_weight (hd (parcels p))) (Fin 70) then
                     (let (sh, s') = getShippoQuotes w p em ph s
                      in (''Shippo Only (Domestic Parcel)'', sh, Inr [], s'))
                   else
                     (let (sh, s') = getShippoQuotes w p em ph s;
                          (f, s'') = getFreightosQuotes w p s'
                      in (''Both (Comparison)'', sh, f, s'')))
            in case (sq, fq) of
                 (Inr shippoQuotes, Inr freightosQuotes) \<Rightarrow>
                   (\<lparr>status = 200, success = True, quotes = shippoQuotes @ freightosQuotes,
                     shippo = Some shippoQuotes, freightos = Some freightosQuotes, routing = rt,
                     parsed = p, missingInfo = None, error = None\<rparr>,
                    saveToDatabase w req s1)
               | _ \<Rightarrow> (errorResponse 500 ''Failed to process quote request'', s1)))"

text \<open>
  POST. The body is \<open>None\<close> when \<^verbatim>\<open>req.json()\<close> throws; \<open>request\<close> is \<open>None\<close> when the field
  is missing or not a string. The result is \<open>None\<close> when the handler does not return.
\<close>

definition POST :: "world \<Rightarrow> PostBody option \<Rightarrow> sys_state \<Rightarrow> (QuoteResponse \<times> sys_state) option" where
  "POST w body s =
     (case body of
        None \<Rightarrow> Some (errorResponse 500 ''Failed to process quote request'', s)
      | Some b \<Rightarrow>
          if \<not> truthy_str (request b) then Some (errorResponse 400 ''Please provide a shipping request'', s)
          else Option.bind (parseNaturalLanguage (the (request b)))
                 (\<lambda>p. Some (quoteParsed w (the (request b)) (email b) (phone b) p s)))"

section \<open>Notions the properties are stated with\<close>



text \<open>The sum of a list of numbers, and the volume of one parcel: \<open>totalWeight\<close> and
  \<open>totalVolume\<close> of the parser are sums of this kind (lemmas \<open>totalWeightOf_sum\<close>,
  \<open>totalVolumeOf_sum\<close>).\<close>

fun num_sum :: "number list \<Rightarrow> number" where
  "num_sum [] = Fin 0"
| "num_sum (x # xs) = num_add x (num_sum xs)"

definition parcelVolume :: "Parcel \<Rightarrow> number" where
  "parcelVolume p = num_mul (num_mul (p_length p) (p_width p)) (p_height p)"



text \<open>The alternatives of the pallet keyword pattern, as plain strings.\<close>

definition palletWords :: "string list" where
  "palletWords = [''pallet'', ''freight'', ''lcl'', ''fcl'', ''container'']"

text \<open>The three rows of the routing table, decided from the parsed request alone.\<close>

datatype route = FreightOnly | ParcelOnly | BothProviders

definition routeOf :: "ParsedRequest \<Rightarrow> route" where
  "routeOf p =
     (if isPallet p \<or> (isInternational p \<and> \<not> needsBothQuotes p) then FreightOnly
      else if \<not> isInternational p \<and> (\<exists>q. parcels p = [q] \<and> num_lt (p_weight q) (Fin 70)) then ParcelOnly
      else BothProviders)"

text \<open>The body the handler answers with after the providers have been asked.\<close>

definition successResponse ::
  "string \<Rightarrow> QuoteResult list \<Rightarrow> QuoteResult list \<Rightarrow> ParsedRequest \<Rightarrow> QuoteResponse" where
  "successResponse label sq fq p =
     \<lparr>status = 200, success = True, quotes = sq @ fq, shippo = Some sq, freightos = Some fq,
      routing = label, parsed = p, missingInfo = None, error = None\<rparr>"

text \<open>The invariant of the address cache: every stored address has a city and a state.\<close>

definition cache_ok :: "sys_state \<Rightarrow> bool" where
  "cache_ok s = (\<forall>k a. LOCATION_CACHE s k = Some a \<longrightarrow> city a \<noteq> [] \<and> state a \<noteq> [])"

text \<open>The requests sent to the outside are logged in \<open>calls\<close>. The address lookups and the
  shipment request belong to the small-parcel path, the estimate request to the freight path.\<close>

fun shippo_side :: "ext_call \<Rightarrow> bool" where
  "shippo_side (FreightosEstimate p) = False"
| "shippo_side (DbInsert r) = False"
| "shippo_side c = True"

fun is_shipment :: "ext_call \<Rightarrow> bool" where
  "is_shipment (ShippoShipment a b ps e p) = True"
| "is_shipment c = False"

fun is_estimate :: "ext_call \<Rightarrow> bool" where
  "is_estimate (FreightosEstimate p) = True"
| "is_estimate c = False"

definition lookup_call :: "ext_call \<Rightarrow> bool" where
  "lookup_call c = (shippo_side c \<and> \<not> is_shipment c)"

text \<open>The requests logged between two states, and a step that only appends requests accepted
  by \<open>P\<close>.\<close>

definition new_calls :: "sys_state \<Rightarrow> sys_state \<Rightarrow> ext_call list" where
  "new_calls s s' = drop (length (calls s)) (calls s')"

definition grows :: "sys_state \<Rightarrow> sys_state \<Rightarrow> bool" where
  "grows s s' = (take (length (calls s)) (calls s') = calls s)"

definition sends_only :: "(ext_call \<Rightarrow> bool) \<Rightarrow> sys_state \<Rightarrow> sys_state \<Rightarrow> bool" where
  "sends_only P s s' = (grows s s' \<and> list_all P (new_calls s s'))"

section \<open>Notions the proofs use\<close>

text \<open>A lower bound on the number of characters a pattern consumes; a pattern whose every match
  consumes a character makes the global search loop advance.\<close>

fun minlen :: "regex \<Rightarrow> nat" where
  "minlen (Lit c) = 1"
| "minlen (Cls items) = 1"
| "minlen Dot = 1"
| "minlen (Seq a b) = minlen a + minlen b"
| "minlen (Alt a b) = min (minlen a) (minlen b)"
| "minlen (Rep r mn mx greedy) = (if mn = 0 \<or> mx = Some 0 then 0 else minlen r)"
| "minlen (Group i r) = minlen r"
| "minlen r = 0"

definition progresses :: "bool \<Rightarrow> regex \<Rightarrow> bool" where
  "progresses ic r = (\<forall>s y. y \<in> set (matcher ic r s) \<longrightarrow> length (right y) < length (right s))"




text \<open>Case-insensitive prefix and substring tests, the meaning of a pattern that is an alternative
  of words.\<close>

fun ci_prefix :: "bool \<Rightarrow> string \<Rightarrow> string \<Rightarrow> bool" where
  "ci_prefix ic [] t = True"
| "ci_prefix ic (c # cs) [] = False"
| "ci_prefix ic (c # cs) (d # ds) = (canonicalize ic c = canonicalize ic d \<and> ci_prefix ic cs ds)"

fun ci_includes :: "bool \<Rightarrow> string list \<Rightarrow> string \<Rightarrow> bool" where
  "ci_includes ic ws [] = list_ex (\<lambda>w. ci_prefix ic w []) ws"
| "ci_includes ic ws (c # cs) = (list_ex (\<lambda>w. ci_prefix ic w (c # cs)) ws \<or> ci_includes ic ws cs)"

text \<open>Lower-case ASCII letters, and characters that are not upper-case letters of Latin-1.\<close>

definition lower_ascii :: "char \<Rightarrow> bool" where
  "lower_ascii m = (97 \<le> code m \<and> code m \<le> 122)"

definition no_upper :: "char \<Rightarrow> bool" where
  "no_upper c = (\<not> (65 \<le> code c \<and> code c \<le> 90) \<and> \<not> (192 \<le> code c \<and> code c \<le> 222 \<and> code c \<noteq> 215))"

section \<open>Example inputs\<close>

definition silent_world :: world where
  "silent_world =
     \<lparr>SHIPPO_API_KEY = None, FREIGHTOS_API_KEY = None, DATABASE_URL = None,
      numberToString = (\<lambda>n. ''0''), sortByPrice = (\<lambda>qs. qs),
      zippopotamZip = (\<lambda>t z. Rejected), zippopotamCity = (\<lambda>t st c. Rejected),
      nominatimSearch = (\<lambda>t q. Rejected), nominatimReverse = (\<lambda>t la lo. Rejected),
      shippoShipments = (\<lambda>t a b ps e p. Rejected), freightosCalculator = (\<lambda>t p. Rejected)\<rparr>"

definition initial_state :: sys_state where
  "initial_state = \<lparr>LOCATION_CACHE = Map.empty, calls = []\<rparr>"

definition box_20lb :: Parcel where
  "box_20lb = \<lparr>p_length = Fin 24, p_width = Fin 10, p_height = Fin 10, p_weight = Fin 20\<rparr>"

definition domestic_box_request :: ParsedRequest where
  "domestic_box_request =
     \<lparr>parcels = [box_20lb], origin = ''33142'', destination = ''90210'', originCountry = ''US'',
      destCountry = ''US'', isInternational = False, isPallet = False, needsBothQuotes = False\<rparr>"






text \<open>A world with an API key for the small-parcel provider in which nothing answers, and one in
  which the postal database knows the ZIP code 33142.\<close>

definition keyed_world :: world where
  "keyed_world = silent_world\<lparr>SHIPPO_API_KEY := Some ''shippo_test_key''\<rparr>"

definition miami_place :: Place where
  "miami_place = \<lparr>place_name = Some ''Miami'', state_abbreviation = Some ''FL'', post_code = Some ''33142''\<rparr>"

definition miami_world :: world where
  "miami_world = keyed_world\<lparr>zippopotamZip := (\<lambda>t z. Response True (Some [miami_place]))\<rparr>"

definition miami :: UsAddress where
  "miami = \<lparr>city = ''Miami'', state = ''FL'', zip = ''33142''\<rparr>"

section \<open>Properties of the freight provider's normalizer\<close>

lemma buildCheapest_append:
  "buildCheapest w ms l f acc = acc @ buildCheapest w ms l f []"
  by (simp add: buildCheapest_def Let_def split: list.splits)










section \<open>The global search loop terminates\<close>

text \<open>
  \<open>collectMatches\<close> loops while \<open>exec\<close> finds a match and does not step over an empty match, so
  it returns only for patterns that consume a character. The three patterns the parser hands to it
  do, hence the parser returns on every input.
\<close>

lemma step_length: "y \<in> set (step s p) \<Longrightarrow> Suc (length (right y)) = length (right s)"
  by (cases "right s") (auto simp: step_def split: if_splits)

lemma clearGroups_right [simp]: "right (clearGroups r s) = right s"
  by (simp add: clearGroups_def)

lemma matcher_minlen: "y \<in> set (matcher ic r s) \<Longrightarrow> length (right y) + minlen r \<le> length (right s)"
proof (induction ic r s arbitrary: y rule: matcher.induct)
  case (8 ic a b s)
  then obtain t where t: "t \<in> set (matcher ic a s)" "y \<in> set (matcher ic b t)" by auto
  from "8.IH"(1) [OF t(1)] "8.IH"(2) [OF t(1) t(2)] show ?case by simp
next
  case (9 ic a b s)
  then show ?case by fastforce
next
  case (11 ic r mn mx greedy s)
  from "11.prems" show ?case
  proof (cases rule: matcher_Rep_cases)
    case (iter t)
    from "11.IH"(1) [OF iter(1) iter(2)] have "length (right t) + minlen r \<le> length (right s)" by simp
    moreover from matcher_length [OF iter(4)] have "length (right y) \<le> length (right t)" .
    ultimately show ?thesis by simp
  qed auto
qed (auto dest: step_length split: if_splits)

lemma minlen_progresses: "0 < minlen r \<Longrightarrow> progresses ic r"
  using matcher_minlen by (fastforce simp: progresses_def)

lemma find_from_matcher:
  "find_from ic r l rt = Some m \<Longrightarrow> snd m \<in> set (matcher ic r (fst m)) \<and> caps (fst m) = (\<lambda>_. None)"
proof (induction ic r l rt rule: find_from.induct)
  case (1 ic r l rt)
  let ?s0 = "\<lparr>left = l, right = rt, caps = (\<lambda>_. None)\<rparr>"
  show ?case
  proof (cases "matcher ic r ?s0")
    case Nil
    with "1.prems" obtain c cs where rt: "rt = c # cs" and f: "find_from ic r (c # l) cs = Some m"
      by (subst (asm) find_from.simps) (auto simp: Let_def split: list.splits)
    from "1.IH" [OF refl Nil rt f] show ?thesis .
  next
    case (Cons y ys)
    with "1.prems" have m: "m = (?s0, y)"
      by (subst (asm) find_from.simps) (auto simp: Let_def)
    with Cons show ?thesis by simp
  qed
qed

lemma collectMatches_from_scan:
  assumes "progresses ic r"
  shows "collectMatches_from ic r l rt = Some (scan ic r l rt)"
proof (induction "length rt" arbitrary: l rt rule: less_induct)
  case less
  show ?case
  proof (cases "find_from ic r l rt")
    case None
    then show ?thesis
      by (subst collectMatches_from.simps, subst scan.simps) simp
  next
    case (Some m)
    from find_from_matcher [OF Some] assms have lt: "length (right (snd m)) < length (right (fst m))"
      by (auto simp: progresses_def)
    with find_from_bounds [OF Some] have "length (right (snd m)) < length rt" by simp
    from less [OF this] have "collectMatches_from ic r (left (snd m)) (right (snd m))
       = Some (scan ic r (left (snd m)) (right (snd m)))" .
    with Some lt show ?thesis
      by (subst collectMatches_from.simps, subst scan.simps) simp
  qed
qed

lemma progresses_boxPattern: "progresses ic boxPattern"
  by (rule minlen_progresses) code_simp

lemma progresses_dimOnlyPattern: "progresses ic dimOnlyPattern"
  by (rule minlen_progresses) code_simp

lemma progresses_weightPattern: "progresses ic weightPattern"
  by (rule minlen_progresses) code_simp

lemma collectMatches_total:
  "collectMatches ic boxPattern inp = Some (scan ic boxPattern [] inp)"
  "collectMatches ic dimOnlyPattern inp = Some (scan ic dimOnlyPattern [] inp)"
  "collectMatches ic weightPattern inp = Some (scan ic weightPattern [] inp)"
  by (simp_all add: collectMatches_def collectMatches_from_scan progresses_boxPattern
        progresses_dimOnlyPattern progresses_weightPattern)

lemma extractParcels_eq:
  "extractParcels n = Some
     (if scan True boxPattern [] n \<noteq> [] then map boxParcel (scan True boxPattern [] n)
      else pairedParcels (scan True dimOnlyPattern [] n) (scan True weightPattern [] n)
             (case regex_exec True weightWordPattern n of
                Some m \<Rightarrow> Some (normalizeWeight (groupNumber m 1) (m_group m 2))
              | None \<Rightarrow> None))"
  by (simp add: extractParcels_def collectMatches_total Let_def)

lemma parseNaturalLanguage_eq:
  "parseNaturalLanguage input = Some
     (classify (toLowerCase (stripDiacritics input)) (the (extractParcels (stripDiacritics input)))
        (fst (extractRoute (stripDiacritics input))) (snd (extractRoute (stripDiacritics input))))"
  by (simp add: parseNaturalLanguage_def extractParcels_eq Let_def split_beta)

lemma parseNaturalLanguage_total: "\<exists>p. parseNaturalLanguage input = Some p"
  by (simp add: parseNaturalLanguage_eq)


section \<open>Capture groups that hold digits\<close>








section \<open>Parsed parcels\<close>



lemma code_simps [simp]:
  "code CHR ''-'' = 45" "code CHR ''+'' = 43" "code CHR ''I'' = 73"
  by (simp_all add: code_def)




















lemma parcels_classify [simp]: "parcels (classify t ps a b) = ps"
  by (simp add: classify_def Let_def)




section \<open>The pallet flag\<close>

lemma matcher_Lit:
  "matcher ic (Lit c) s \<noteq> [] \<longleftrightarrow> ci_prefix ic [c] (right s)"
  by (cases "right s") (auto simp: step_def)

lemma matcher_Lit_right:
  "y \<in> set (matcher ic (Lit c) s) \<Longrightarrow> right s = hd (right s) # right y"
  by (cases "right s") (auto simp: step_def split: if_splits)

lemma matcher_str: "matcher ic (str w) s \<noteq> [] \<longleftrightarrow> ci_prefix ic w (right s)"
proof (induction w arbitrary: s rule: str.induct)
  case 1
  show ?case by simp
next
  case (2 c)
  show ?case using matcher_Lit [of ic c s] by simp
next
  case (3 c d ds)
  show ?case
  proof (cases "right s")
    case Nil
    then show ?thesis by (simp add: step_def)
  next
    case (Cons e es)
    show ?thesis
    proof (cases "canonicalize ic c = canonicalize ic e")
      case True
      with Cons have "matcher ic (Lit c) s = [s\<lparr>left := e # left s, right := es\<rparr>]"
        by (simp add: step_def)
      with 3 [of "s\<lparr>left := e # left s, right := es\<rparr>"] Cons True show ?thesis by simp
    next
      case False
      with Cons show ?thesis by (simp add: step_def)
    qed
  qed
qed

lemma matcher_alts:
  "rs \<noteq> [] \<Longrightarrow> matcher ic (alts rs) s \<noteq> [] \<longleftrightarrow> list_ex (\<lambda>r. matcher ic r s \<noteq> []) rs"
  by (induction rs rule: alts.induct) auto

lemma matcher_words:
  "ws \<noteq> [] \<Longrightarrow> matcher ic (words ws) s \<noteq> [] \<longleftrightarrow> list_ex (\<lambda>w. ci_prefix ic w (right s)) ws"
  by (simp add: words_def matcher_alts matcher_str list_ex_iff)

lemma find_from_words:
  assumes "ws \<noteq> []"
  shows "find_from ic (words ws) l rt \<noteq> None \<longleftrightarrow> ci_includes ic ws rt"
proof (induction rt arbitrary: l)
  case Nil
  show ?case
    using matcher_words [OF assms, of ic "\<lparr>left = l, right = [], caps = (\<lambda>_. None)\<rparr>"]
    by (subst find_from.simps) (auto simp: Let_def split: list.splits)
next
  case (Cons c cs)
  show ?case
    using matcher_words [OF assms, of ic "\<lparr>left = l, right = c # cs, caps = (\<lambda>_. None)\<rparr>"] Cons [of "c # l"]
    by (subst find_from.simps) (auto simp: Let_def split: list.splits)
qed

lemma code_less: "code c < 256"
  by (simp add: code_def)

lemma code_char_of: "n < 256 \<Longrightarrow> code (char_of n) = n"
  by (simp add: code_def)

lemma code_inj: "code c = code d \<Longrightarrow> c = d"
  by (simp add: code_def)

lemma no_upper_lowerChar: "no_upper (lowerChar c)"
  using code_less [of c]
  by (auto simp: no_upper_def lowerChar_def code_char_of)

lemma canonicalize_lower:
  assumes "lower_ascii m" "no_upper c"
  shows "canonicalize True m = canonicalize True c \<longleftrightarrow> m = c"
proof
  assume "m = c"
  then show "canonicalize True m = canonicalize True c" by simp
next
  assume eq: "canonicalize True m = canonicalize True c"
  have m: "canonicalize True m = char_of (code m - 32)"
    using assms(1) by (simp add: canonicalize_def lower_ascii_def)
  have cm: "code (canonicalize True m) = code m - 32"
    using assms(1) code_less [of m] by (simp add: m code_char_of)
  show "m = c"
  proof (cases "(97 \<le> code c \<and> code c \<le> 122) \<or> (224 \<le> code c \<and> code c \<le> 254 \<and> code c \<noteq> 247)")
    case True
    then have "code (canonicalize True c) = code c - 32"
      using code_less [of c] by (simp add: canonicalize_def code_char_of)
    with eq cm have "code m - 32 = code c - 32" by simp
    with True assms(1) have "code m = code c" by (auto simp: lower_ascii_def)
    then show ?thesis by (rule code_inj)
  next
    case False
    then have "canonicalize True c = c" by (auto simp: canonicalize_def)
    with eq cm have "code c = code m - 32" by simp
    with assms show ?thesis by (auto simp: lower_ascii_def no_upper_def)
  qed
qed

lemma ci_prefix_lower:
  assumes "list_all lower_ascii w" "list_all no_upper t"
  shows "ci_prefix True w t \<longleftrightarrow> startsWith t w"
  using assms
proof (induction w arbitrary: t)
  case Nil
  then show ?case by (simp add: startsWith_def)
next
  case (Cons c cs)
  show ?case
  proof (cases t)
    case Nil
    then show ?thesis by (simp add: startsWith_def)
  next
    case t: (Cons d ds)
    with Cons.prems have "canonicalize True c = canonicalize True d \<longleftrightarrow> c = d"
      using canonicalize_lower [of c d] by simp
    moreover from Cons.IH [of ds] Cons.prems t have "ci_prefix True cs ds \<longleftrightarrow> startsWith ds cs"
      by simp
    ultimately show ?thesis
      using t by (auto simp: startsWith_def)
  qed
qed

lemma startsWith_Nil: "startsWith [] w \<longleftrightarrow> w = []"
  by (auto simp: startsWith_def)

lemma ci_includes_lower:
  assumes "list_all (list_all lower_ascii) ws" "list_all no_upper t"
  shows "ci_includes True ws t \<longleftrightarrow> list_ex (str_includes t) ws"
  using assms(2)
proof (induction t)
  case Nil
  have "\<And>w. w \<in> set ws \<Longrightarrow> ci_prefix True w [] \<longleftrightarrow> w = []"
    using assms(1) ci_prefix_lower [of _ "[]"] by (auto simp: list_all_iff startsWith_Nil)
  then show ?case by (auto simp: list_ex_iff)
next
  case (Cons c cs)
  have "\<And>w. w \<in> set ws \<Longrightarrow> ci_prefix True w (c # cs) \<longleftrightarrow> startsWith (c # cs) w"
    using assms(1) Cons.prems ci_prefix_lower [of _ "c # cs"] by (auto simp: list_all_iff)
  with Cons show ?case by (auto simp: list_ex_iff)
qed

lemma toLowerCase_no_upper: "list_all no_upper (toLowerCase s)"
  by (simp add: toLowerCase_def list_all_iff no_upper_lowerChar)

lemma palletWords_lower: "list_all (list_all lower_ascii) palletWords"
  by code_simp

lemma palletPattern_test:
  "regex_test True palletPattern (toLowerCase n) \<longleftrightarrow> list_ex (str_includes (toLowerCase n)) palletWords"
proof -
  have "palletPattern = words palletWords" by (simp add: palletPattern_def palletWords_def)
  moreover have "palletWords \<noteq> []" by (simp add: palletWords_def)
  ultimately show ?thesis
    using find_from_words [of palletWords True "[]" "toLowerCase n"]
      ci_includes_lower [OF palletWords_lower toLowerCase_no_upper, of n]
    by (simp add: regex_test_def regex_exec_def)
qed

lemma isPallet_classify [simp]: "isPallet (classify t ps a b) = regex_test True palletPattern t"
  by (simp add: classify_def Let_def)

text \<open>
  C10, as the code has it. For every input text the parsed \<open>isPallet\<close> flag is true if and
  only if the text, with diacritics removed and then lower-cased, contains one of the substrings
  pallet, freight, lcl, fcl, container.
\<close>

theorem isPallet_substring_test:
  "\<exists>p. parseNaturalLanguage input = Some p \<and>
     isPallet p = list_ex (str_includes (toLowerCase (stripDiacritics input)))
                    [''pallet'', ''freight'', ''lcl'', ''fcl'', ''container'']"
  using palletPattern_test [of "stripDiacritics input"]
  by (simp add: parseNaturalLanguage_eq palletWords_def)

text \<open>
  C10 as stated tests the input text itself. The six-character text made of p, the character
  U+00E1 (a with acute accent) and llet does not contain pallet in any letter case, and is flagged
  as a pallet shipment.
\<close>

theorem accented_pallet_flagged:
  "map_option isPallet (parseNaturalLanguage (CHR ''p'' # CHR 0xE1 # ''llet'')) = Some True
   \<and> \<not> list_ex (str_includes (toLowerCase (CHR ''p'' # CHR 0xE1 # ''llet'')))
         [''pallet'', ''freight'', ''lcl'', ''fcl'', ''container'']"
  by code_simp


section \<open>The comparison flag\<close>

lemma num_add_assoc: "num_add (num_add a b) c = num_add a (num_add b c)"
  by (cases a; cases b; cases c) simp_all

lemma num_add_zero [simp]: "num_add (Fin 0) a = a"
  by (cases a) simp_all

lemma foldl_num_add: "foldl (\<lambda>sum p. num_add sum (f p)) a ps = num_add a (num_sum (map f ps))"
proof (induction ps arbitrary: a)
  case Nil
  show ?case by (cases a) simp_all
next
  case (Cons p ps)
  then show ?case by (simp add: num_add_assoc)
qed

lemma totalWeightOf_sum: "totalWeightOf ps = num_sum (map p_weight ps)"
  by (simp add: totalWeightOf_def foldl_num_add)

lemma totalVolumeOf_sum: "totalVolumeOf ps = num_sum (map parcelVolume ps)"
  unfolding parcelVolume_def [abs_def] by (simp add: totalVolumeOf_def foldl_num_add)

text \<open>
  C2. For every input text the parser returns a request whose \<open>needsBothQuotes\<close> field is
  the disjunction of: more than one parcel; international and not a pallet; the sum of the
  parcel weights above 150; the sum of length * width * height over the parcels above 50000.
  The right-hand side reads only the other fields of the parsed request.
\<close>

theorem needsBothQuotes_formula:
  "\<exists>p. parseNaturalLanguage input = Some p \<and>
     needsBothQuotes p =
       (1 < length (parcels p) \<or> (isInternational p \<and> \<not> isPallet p)
        \<or> num_gt (num_sum (map p_weight (parcels p))) (Fin 150)
        \<or> num_gt (num_sum (map parcelVolume (parcels p))) (Fin 50000))"
  by (simp add: parseNaturalLanguage_eq classify_def Let_def totalWeightOf_sum totalVolumeOf_sum)


section \<open>The parser on example texts\<close>

lemma parse_Nil: "parseNaturalLanguage [] = Some emptyParsed"
  by code_simp

lemma validated_nonempty: "parseNaturalLanguage req = Some p \<Longrightarrow> origin p \<noteq> [] \<Longrightarrow> req \<noteq> []"
  using parse_Nil by (auto simp: emptyParsed_def)

lemma parse_hello: "parseNaturalLanguage ''hello'' = Some emptyParsed"
  by code_simp

lemma parse_plain:
  "parseNaturalLanguage ''24x10x10 20lbs from 33142 to 90210'' = Some domestic_box_request"
  by code_simp

lemma parse_readme:
  "parseNaturalLanguage ''Ship a 24x10x10 box weighing 20lbs from 33142 to 90210'' = Some
    \<lparr>parcels = [\<lparr>p_length = Fin 24, p_width = Fin 10, p_height = Fin 1, p_weight = Fin 0\<rparr>],
     origin = ''33142'', destination = ''24x10x10 box weighing 20lbs'',
     originCountry = ''US'', destCountry = ''US'', isInternational = False,
     isPallet = False, needsBothQuotes = False\<rparr>"
  by code_simp

text \<open>
  C5. Parsing the text \<open>Ship a 24x10x10 box weighing 20lbs from 33142 to 90210\<close> gives one
  parcel of length 24, width 10, height 1 and weight 0, since the combined pattern wants the
  weight right after the third dimension and backtracks into the digits of \<open>10\<close>; the origin is
  \<open>33142\<close>; the destination is \<open>24x10x10 box weighing 20lbs\<close>, since the destination pattern
  takes the article \<open>a\<close> for the Spanish preposition; both countries are US; the handler labels
  the request as for the small-parcel provider only.
\<close>

theorem readme_example_parse:
  "parseNaturalLanguage ''Ship a 24x10x10 box weighing 20lbs from 33142 to 90210'' = Some
    \<lparr>parcels = [\<lparr>p_length = Fin 24, p_width = Fin 10, p_height = Fin 1, p_weight = Fin 0\<rparr>],
     origin = ''33142'', destination = ''24x10x10 box weighing 20lbs'',
     originCountry = ''US'', destCountry = ''US'', isInternational = False,
     isPallet = False, needsBothQuotes = False\<rparr>
   \<and> map_option (\<lambda>r. routing (fst r))
        (POST silent_world
           (Some \<lparr>request = Some ''Ship a 24x10x10 box weighing 20lbs from 33142 to 90210'',
                  email = None, phone = None\<rparr>) initial_state) = Some ''Shippo Only (Domestic Parcel)''"
  by (simp add: parse_readme POST_def truthy_str_def quoteParsed_def missingInfoOf_def Let_def
        getShippoQuotes_def silent_world_def)


section \<open>The address cache\<close>

lemma send_cache [simp]: "LOCATION_CACHE (send c s) = LOCATION_CACHE s"
  by (simp add: send_def)

lemma send_calls [simp]: "calls (send c s) = calls s @ [c]"
  by (simp add: send_def)

lemma cacheSet_cache [simp]: "LOCATION_CACHE (cacheSet k a s) = (LOCATION_CACHE s)(k \<mapsto> a)"
  by (simp add: cacheSet_def)

lemma cacheSet_calls [simp]: "calls (cacheSet k a s) = calls s"
  by (simp add: cacheSet_def)

lemma lookupZipDetails_state [simp]: "snd (lookupZipDetails w z s) = send (ZipLookup z) s"
  by (simp add: lookupZipDetails_def)

lemma geocodeCity_state [simp]: "snd (geocodeCity w location s) = send (NominatimSearch (location @ '', USA'')) s"
  by (simp add: geocodeCity_def Let_def)

lemma reverseGeocodeZip_state [simp]: "snd (reverseGeocodeZip w lat lon s) = send (NominatimReverse lat lon) s"
  by (simp add: reverseGeocodeZip_def)

lemma lookupZipByCityState_state [simp]: "snd (lookupZipByCityState w c st s) = send (CityStateLookup st c) s"
  by (simp add: lookupZipByCityState_def)

lemma resolveByZip_Some:
  "resolveByZip w location hint z s = (Some a, s') \<Longrightarrow>
     city a \<noteq> [] \<and> state a \<noteq> [] \<and> LOCATION_CACHE s' = (LOCATION_CACHE s)(toLowerCase location \<mapsto> a)"
  by (auto simp: resolveByZip_def Let_def split_beta split: if_splits)

lemma resolveByZip_None:
  "resolveByZip w location hint z s = (None, s') \<Longrightarrow> LOCATION_CACHE s' = LOCATION_CACHE s"
  by (auto simp: resolveByZip_def Let_def split_beta split: if_splits)

lemma resolveByGeocoding_Some:
  "resolveByGeocoding w location hint s = (Some a, s') \<Longrightarrow>
     city a \<noteq> [] \<and> state a \<noteq> [] \<and> LOCATION_CACHE s' = (LOCATION_CACHE s)(toLowerCase location \<mapsto> a)"
  by (auto simp: resolveByGeocoding_def Let_def split_beta split: if_splits)

lemma resolveByGeocoding_None:
  "resolveByGeocoding w location hint s = (None, s') \<Longrightarrow> LOCATION_CACHE s' = LOCATION_CACHE s"
  by (auto simp: resolveByGeocoding_def Let_def split_beta split: if_splits)

lemma resolveUsAddress_Some:
  assumes "resolveUsAddress w location s = (Some a, s')" and "cache_ok s"
  shows "city a \<noteq> [] \<and> state a \<noteq> [] \<and> LOCATION_CACHE s' = (LOCATION_CACHE s)(toLowerCase location \<mapsto> a)"
proof (cases "LOCATION_CACHE s (toLowerCase location)")
  case (Some cached)
  with assms(1) have "a = cached" "s' = s"
    by (simp_all add: resolveUsAddress_def)
  with Some assms(2) show ?thesis
    by (auto simp: cache_ok_def)
next
  case None
  show ?thesis
  proof (cases "truthy_str (extractZip location)")
    case False
    with None assms(1) show ?thesis
      by (simp add: resolveUsAddress_def Let_def resolveByGeocoding_Some)
  next
    case True
    obtain r s1 where z: "resolveByZip w location (normalizeState (extractStateAbbreviation location))
        (the (extractZip location)) s = (r, s1)"
      by (cases "resolveByZip w location (normalizeState (extractStateAbbreviation location))
        (the (extractZip location)) s")
    show ?thesis
    proof (cases r)
      case (Some b)
      with None True z assms(1) have "a = b" "s' = s1"
        by (simp_all add: resolveUsAddress_def Let_def)
      with Some z resolveByZip_Some show ?thesis by blast
    next
      case None2: None
      with None True z assms(1)
      have g: "resolveByGeocoding w location (normalizeState (extractStateAbbreviation location)) s1 = (Some a, s')"
        by (simp add: resolveUsAddress_def Let_def)
      from None2 z have "LOCATION_CACHE s1 = LOCATION_CACHE s"
        using resolveByZip_None by blast
      with resolveByGeocoding_Some [OF g] show ?thesis by simp
    qed
  qed
qed

lemma resolveUsAddress_None:
  assumes "resolveUsAddress w location s = (None, s')"
  shows "LOCATION_CACHE s' = LOCATION_CACHE s"
proof (cases "LOCATION_CACHE s (toLowerCase location)")
  case (Some cached)
  with assms show ?thesis by (simp add: resolveUsAddress_def)
next
  case None
  show ?thesis
  proof (cases "truthy_str (extractZip location)")
    case False
    with None assms show ?thesis
      by (simp add: resolveUsAddress_def Let_def resolveByGeocoding_None)
  next
    case True
    obtain r s1 where z: "resolveByZip w location (normalizeState (extractStateAbbreviation location))
        (the (extractZip location)) s = (r, s1)"
      by (cases "resolveByZip w location (normalizeState (extractStateAbbreviation location))
        (the (extractZip location)) s")
    show ?thesis
    proof (cases r)
      case (Some b)
      with None True z assms show ?thesis
        by (simp add: resolveUsAddress_def Let_def)
    next
      case None2: None
      with None True z assms
      have g: "resolveByGeocoding w location (normalizeState (extractStateAbbreviation location)) s1 = (None, s')"
        by (simp add: resolveUsAddress_def Let_def)
      from None2 z have "LOCATION_CACHE s1 = LOCATION_CACHE s"
        using resolveByZip_None by blast
      with resolveByGeocoding_None [OF g] show ?thesis by simp
    qed
  qed
qed

lemma resolveUsAddress_cached:
  "LOCATION_CACHE s (toLowerCase location) = Some a \<Longrightarrow> resolveUsAddress w location s = (Some a, s)"
  by (simp add: resolveUsAddress_def)

lemma cache_ok_upd:
  "cache_ok s \<Longrightarrow> city a \<noteq> [] \<Longrightarrow> state a \<noteq> [] \<Longrightarrow> LOCATION_CACHE s' = (LOCATION_CACHE s)(k \<mapsto> a) \<Longrightarrow> cache_ok s'"
  by (auto simp: cache_ok_def)

lemma resolveUsAddress_cache_ok:
  assumes "cache_ok s"
  shows "cache_ok (snd (resolveUsAddress w location s))"
proof (cases "resolveUsAddress w location s")
  case (Pair r s')
  show ?thesis
  proof (cases r)
    case None
    with Pair resolveUsAddress_None [of w location s s'] assms show ?thesis
      by (simp add: cache_ok_def)
  next
    case (Some a)
    with Pair resolveUsAddress_Some [of w location s a s'] assms show ?thesis
      by (auto intro: cache_ok_upd)
  qed
qed

lemma initial_cache_ok: "cache_ok initial_state"
  by (simp add: cache_ok_def initial_state_def)


section \<open>The requests each function sends\<close>

lemma grows_refl [simp]: "grows s s"
  by (simp add: grows_def)

lemma new_calls_refl [simp]: "new_calls s s = []"
  by (simp add: new_calls_def)

lemma grows_iff: "grows s s' \<longleftrightarrow> calls s' = calls s @ new_calls s s'"
  unfolding grows_def new_calls_def
  by (metis append_take_drop_id append_eq_conv_conj)

lemma grows_trans:
  assumes "grows s s1" "grows s1 s2"
  shows "grows s s2 \<and> new_calls s s2 = new_calls s s1 @ new_calls s1 s2"
proof -
  from assms have a: "calls s1 = calls s @ new_calls s s1" and b: "calls s2 = calls s1 @ new_calls s1 s2"
    by (simp_all add: grows_iff)
  then have c: "calls s2 = calls s @ (new_calls s s1 @ new_calls s1 s2)" by simp
  then have "grows s s2" by (simp add: grows_def)
  moreover have "new_calls s s2 = new_calls s s1 @ new_calls s1 s2"
    by (subst new_calls_def, subst c) simp
  ultimately show ?thesis by simp
qed

lemma grows_send [simp]: "grows s (send c s)"
  by (simp add: grows_def)

lemma new_calls_send [simp]: "new_calls s (send c s) = [c]"
  by (simp add: new_calls_def)

lemma grows_cacheSet [simp]: "grows s (cacheSet k a s)"
  by (simp add: grows_def)

lemma new_calls_cacheSet [simp]: "new_calls s (cacheSet k a s) = []"
  by (simp add: new_calls_def)

lemma sends_only_refl [simp]: "sends_only P s s"
  by (simp add: sends_only_def)

lemma sends_only_trans: "sends_only P s s1 \<Longrightarrow> sends_only P s1 s2 \<Longrightarrow> sends_only P s s2"
  using grows_trans [of s s1 s2] by (auto simp: sends_only_def)

lemma sends_only_send: "P c \<Longrightarrow> sends_only P s (send c s)"
  by (simp add: sends_only_def)

lemma sends_only_send_after: "sends_only P s s1 \<Longrightarrow> P c \<Longrightarrow> sends_only P s (send c s1)"
  by (blast intro: sends_only_trans sends_only_send)

lemma sends_only_cacheSet: "sends_only P s s1 \<Longrightarrow> sends_only P s (cacheSet k a s1)"
  using grows_trans [of s s1 "cacheSet k a s1"] by (auto simp: sends_only_def)

lemma lookup_call_simps [simp]:
  "lookup_call (ZipLookup z)" "lookup_call (CityStateLookup a b)" "lookup_call (NominatimSearch q)"
  "lookup_call (NominatimReverse la lo)"
  by (simp_all add: lookup_call_def)

lemma resolveByZip_sends: "sends_only lookup_call s (snd (resolveByZip w location hint z s))"
  by (simp add: resolveByZip_def Let_def split_beta sends_only_cacheSet sends_only_send)

lemma resolveByGeocoding_sends: "sends_only lookup_call s (snd (resolveByGeocoding w location hint s))"
  by (simp add: resolveByGeocoding_def Let_def split_beta sends_only_cacheSet sends_only_send sends_only_send_after)

lemma resolveUsAddress_sends: "sends_only lookup_call s (snd (resolveUsAddress w location s))"
proof (cases "LOCATION_CACHE s (toLowerCase location)")
  case (Some a)
  then show ?thesis by (simp add: resolveUsAddress_def)
next
  case None
  show ?thesis
  proof (cases "truthy_str (extractZip location)")
    case False
    with None show ?thesis
      by (simp add: resolveUsAddress_def Let_def resolveByGeocoding_sends)
  next
    case True
    obtain r s1 where z: "resolveByZip w location (normalizeState (extractStateAbbreviation location))
        (the (extractZip location)) s = (r, s1)"
      by (cases "resolveByZip w location (normalizeState (extractStateAbbreviation location))
        (the (extractZip location)) s")
    then have s1: "sends_only lookup_call s s1"
      using resolveByZip_sends [of s w location "normalizeState (extractStateAbbreviation location)"
          "the (extractZip location)"] by simp
    show ?thesis
    proof (cases r)
      case (Some b)
      with None True z s1 show ?thesis
        by (simp add: resolveUsAddress_def Let_def)
    next
      case None2: None
      with None True z
      have "snd (resolveUsAddress w location s)
          = snd (resolveByGeocoding w location (normalizeState (extractStateAbbreviation location)) s1)"
        by (simp add: resolveUsAddress_def Let_def)
      with s1 resolveByGeocoding_sends [of s1 w location] show ?thesis
        by (auto intro: sends_only_trans)
    qed
  qed
qed

lemma buildShippoAddress_sends: "sends_only lookup_call s (snd (buildShippoAddress w location cc s))"
proof (cases "cc = ''US''")
  case False
  then show ?thesis
    by (simp add: buildShippoAddress_def Let_def split_beta sends_only_send)
next
  case True
  then show ?thesis
    using resolveUsAddress_sends [of s w location]
    by (auto simp: buildShippoAddress_def split: prod.splits option.splits)
qed

lemma buildShippoAddress_None:
  "fst (buildShippoAddress w location cc s) = None \<longleftrightarrow> cc = ''US'' \<and> fst (resolveUsAddress w location s) = None"
  by (auto simp: buildShippoAddress_def Let_def split_beta split: prod.splits option.splits)

lemma sends_only_mono: "sends_only P s s' \<Longrightarrow> (\<And>c. P c \<Longrightarrow> Q c) \<Longrightarrow> sends_only Q s s'"
  by (auto simp: sends_only_def list_all_iff)

lemma getShippoQuotes_Inr: "\<exists>qs. fst (getShippoQuotes w pr em ph s) = Inr qs"
  by (auto simp: getShippoQuotes_def split: prod.splits sum.splits)

lemma getFreightosQuotes_Inr: "\<exists>qs. fst (getFreightosQuotes w pr s) = Inr qs"
  by (auto simp: getFreightosQuotes_def split: prod.splits sum.splits)

lemma getFreightosQuotes_state: "snd (getFreightosQuotes w pr s) = send (FreightosEstimate pr) s"
  by (auto simp: getFreightosQuotes_def getFreightosQuotes_try_def Let_def split: prod.splits sum.splits fetched.splits option.splits)

lemma getShippoQuotes_try_unresolved:
  assumes "fst (buildShippoAddress w (origin pr) (originCountry pr) s) = None
     \<or> fst (buildShippoAddress w (destination pr) (destCountry pr)
            (snd (buildShippoAddress w (origin pr) (originCountry pr) s))) = None"
  shows "fst (getShippoQuotes_try w pr em ph s) = Inr []
     \<and> sends_only lookup_call s (snd (getShippoQuotes_try w pr em ph s))"
proof -
  obtain a s1 where o: "buildShippoAddress w (origin pr) (originCountry pr) s = (a, s1)"
    by (cases "buildShippoAddress w (origin pr) (originCountry pr) s")
  obtain b s2 where d: "buildShippoAddress w (destination pr) (destCountry pr) s1 = (b, s2)"
    by (cases "buildShippoAddress w (destination pr) (destCountry pr) s1")
  from o buildShippoAddress_sends [of s w "origin pr" "originCountry pr"] have 1: "sends_only lookup_call s s1" by simp
  from d buildShippoAddress_sends [of s1 w "destination pr" "destCountry pr"] have 2: "sends_only lookup_call s1 s2" by simp
  from assms o d have "a = None \<or> b = None" by simp
  then have "getShippoQuotes_try w pr em ph s = (Inr [], s2)"
    using o d by (auto simp: getShippoQuotes_try_def Let_def split: option.splits)
  with sends_only_trans [OF 1 2] show ?thesis by simp
qed

lemma getShippoQuotes_try_sends:
  "sends_only shippo_side s (snd (getShippoQuotes_try w pr em ph s))"
proof -
  obtain a s1 where o: "buildShippoAddress w (origin pr) (originCountry pr) s = (a, s1)"
    by (cases "buildShippoAddress w (origin pr) (originCountry pr) s")
  obtain b s2 where d: "buildShippoAddress w (destination pr) (destCountry pr) s1 = (b, s2)"
    by (cases "buildShippoAddress w (destination pr) (destCountry pr) s1")
  from o buildShippoAddress_sends [of s w "origin pr" "originCountry pr"] have 1: "sends_only lookup_call s s1" by simp
  from d buildShippoAddress_sends [of s1 w "destination pr" "destCountry pr"] have 2: "sends_only lookup_call s1 s2" by simp
  have 3: "sends_only shippo_side s s2"
    using sends_only_trans [OF 1 2] by (rule sends_only_mono) (simp add: lookup_call_def)
  show ?thesis
    using o d 3
    by (auto simp: getShippoQuotes_try_def Let_def intro: sends_only_send_after
          split: option.splits fetched.splits)
qed

lemma getShippoQuotes_sends: "sends_only shippo_side s (snd (getShippoQuotes w pr em ph s))"
  using getShippoQuotes_try_sends [of s w pr em ph]
  by (auto simp: getShippoQuotes_def split: prod.splits sum.splits)

lemma lookup_not_shipment: "lookup_call c \<Longrightarrow> \<not> is_shipment c"
  by (simp add: lookup_call_def)

lemma getShippoQuotes_unresolved:
  assumes "fst (buildShippoAddress w (origin pr) (originCountry pr) s) = None
     \<or> fst (buildShippoAddress w (destination pr) (destCountry pr)
            (snd (buildShippoAddress w (origin pr) (originCountry pr) s))) = None"
  shows "fst (getShippoQuotes w pr em ph s) = Inr []
     \<and> \<not> list_ex is_shipment (new_calls s (snd (getShippoQuotes w pr em ph s)))"
proof (cases "truthy_str (SHIPPO_API_KEY w)")
  case False
  then show ?thesis by (simp add: getShippoQuotes_def)
next
  case True
  obtain r s1 where t: "getShippoQuotes_try w pr em ph s = (r, s1)"
    by (cases "getShippoQuotes_try w pr em ph s")
  with getShippoQuotes_try_unresolved [OF assms, of em ph]
  have r: "r = Inr []" and s1: "sends_only lookup_call s s1" by simp_all
  from s1 have "list_all (\<lambda>c. \<not> is_shipment c) (new_calls s s1)"
    by (auto simp: sends_only_def list_all_iff dest: lookup_not_shipment)
  then have "\<not> list_ex is_shipment (new_calls s s1)"
    by (auto simp: list_all_iff list_ex_iff)
  with True t r show ?thesis by (simp add: getShippoQuotes_def)
qed

text \<open>
  The invariant holds in every state the handler can reach: it holds of the empty cache, and the
  provider functions and the handler keep it, as \<open>resolveUsAddress\<close> is the only writer.
\<close>

lemma cache_ok_same: "LOCATION_CACHE s' = LOCATION_CACHE s \<Longrightarrow> cache_ok s \<Longrightarrow> cache_ok s'"
  by (simp add: cache_ok_def)

lemma buildShippoAddress_cache_ok:
  assumes "cache_ok s"
  shows "cache_ok (snd (buildShippoAddress w location cc s))"
proof (cases "cc = ''US''")
  case False
  then show ?thesis
    using assms by (simp add: buildShippoAddress_def Let_def split_beta cache_ok_def)
next
  case True
  then show ?thesis
    using resolveUsAddress_cache_ok [OF assms, of w location]
    by (auto simp: buildShippoAddress_def split: prod.splits option.splits)
qed

lemma getShippoQuotes_try_cache_ok:
  assumes "cache_ok s"
  shows "cache_ok (snd (getShippoQuotes_try w pr em ph s))"
proof -
  let ?s1 = "snd (buildShippoAddress w (origin pr) (originCountry pr) s)"
  let ?s2 = "snd (buildShippoAddress w (destination pr) (destCountry pr) ?s1)"
  have 2: "cache_ok ?s2"
    by (intro buildShippoAddress_cache_ok assms)
  have "LOCATION_CACHE (snd (getShippoQuotes_try w pr em ph s)) = LOCATION_CACHE ?s2"
    by (simp add: getShippoQuotes_try_def Let_def split_beta
          split: option.splits fetched.splits)
  then show ?thesis using 2 by (rule cache_ok_same)
qed

lemma getShippoQuotes_cache_ok:
  "cache_ok s \<Longrightarrow> cache_ok (snd (getShippoQuotes w pr em ph s))"
  using getShippoQuotes_try_cache_ok [of s w pr em ph]
  by (auto simp: getShippoQuotes_def split: prod.splits sum.splits)

lemma getFreightosQuotes_cache_ok:
  "cache_ok s \<Longrightarrow> cache_ok (snd (getFreightosQuotes w pr s))"
  by (simp add: getFreightosQuotes_state cache_ok_def)

lemma saveToDatabase_cache_ok:
  "cache_ok s \<Longrightarrow> cache_ok (saveToDatabase w req s)"
  by (simp add: saveToDatabase_def cache_ok_def)

lemma quoteParsed_cache_ok:
  assumes "cache_ok s"
  shows "cache_ok (snd (quoteParsed w req em ph p s))"
proof -
  note a = getShippoQuotes_cache_ok [OF assms, of w p em ph]
  note b = getFreightosQuotes_cache_ok [OF assms, of w p]
  note c = getFreightosQuotes_cache_ok [OF a, of w p]
  show ?thesis
    using assms a b c getShippoQuotes_Inr [of w p em ph s] getFreightosQuotes_Inr [of w p s]
      getFreightosQuotes_Inr [of w p "snd (getShippoQuotes w p em ph s)"]
    by (auto simp: quoteParsed_def Let_def split_beta saveToDatabase_cache_ok)
qed

lemma POST_cache_ok:
  "cache_ok s \<Longrightarrow> POST w body s = Some (resp, s') \<Longrightarrow> cache_ok s'"
proof -
  assume ok: "cache_ok s" and p: "POST w body s = Some (resp, s')"
  show ?thesis
  proof (cases body)
    case None
    with ok p show ?thesis by (simp add: POST_def)
  next
    case (Some b)
    show ?thesis
    proof (cases "truthy_str (request b)")
      case False
      with Some ok p show ?thesis by (simp add: POST_def)
    next
      case True
      with Some p obtain pr where "quoteParsed w (the (request b)) (email b) (phone b) pr s = (resp, s')"
        by (auto simp: POST_def split: Option.bind_splits)
      with quoteParsed_cache_ok [OF ok, of w "the (request b)" "email b" "phone b" pr]
      show ?thesis by simp
    qed
  qed
qed

text \<open>
  C9. In a state whose cache holds only addresses with a city and a state (the invariant
  \<open>cache_ok\<close>, true of the empty cache and kept by the resolver): if \<open>resolveUsAddress\<close>
  returns an address, the address has a non-empty city and a non-empty state, the cache after the
  call is the cache before it with the address stored under the lower-cased location, and a
  second call returns the same address and leaves the state, hence the log of external requests,
  as it is. If it returns no address, the cache is unchanged. If the origin or the destination
  of a request is in the US and does not resolve, \<open>getShippoQuotes\<close> returns the empty list and
  sends no shipment request.
\<close>

theorem address_cache_written_on_success:
  assumes "cache_ok s"
  shows "(case resolveUsAddress w location s of
            (Some a, s') \<Rightarrow>
              city a \<noteq> [] \<and> state a \<noteq> []
              \<and> LOCATION_CACHE s' = (LOCATION_CACHE s)(toLowerCase location \<mapsto> a)
              \<and> resolveUsAddress w location s' = (Some a, s')
              \<and> cache_ok s'
          | (None, s') \<Rightarrow> LOCATION_CACHE s' = LOCATION_CACHE s \<and> cache_ok s')
     \<and> ((originCountry pr = ''US'' \<and> fst (resolveUsAddress w (origin pr) s) = None)
          \<or> (destCountry pr = ''US'' \<and> fst (resolveUsAddress w (destination pr)
                 (snd (buildShippoAddress w (origin pr) (originCountry pr) s))) = None)
        \<longrightarrow> fst (getShippoQuotes w pr em ph s) = Inr []
            \<and> \<not> list_ex is_shipment (new_calls s (snd (getShippoQuotes w pr em ph s))))"
proof -
  have 1: "case resolveUsAddress w location s of
            (Some a, s') \<Rightarrow>
              city a \<noteq> [] \<and> state a \<noteq> []
              \<and> LOCATION_CACHE s' = (LOCATION_CACHE s)(toLowerCase location \<mapsto> a)
              \<and> resolveUsAddress w location s' = (Some a, s')
              \<and> cache_ok s'
          | (None, s') \<Rightarrow> LOCATION_CACHE s' = LOCATION_CACHE s \<and> cache_ok s'"
  proof (cases "resolveUsAddress w location s")
    case (Pair r s')
    from resolveUsAddress_cache_ok [OF assms, of w location] Pair have ok: "cache_ok s'" by simp
    show ?thesis
    proof (cases r)
      case None
      with Pair resolveUsAddress_None [of w location s s'] ok show ?thesis by simp
    next
      case (Some a)
      with Pair resolveUsAddress_Some [of w location s a s'] assms
      have a: "city a \<noteq> []" "state a \<noteq> []" "LOCATION_CACHE s' = (LOCATION_CACHE s)(toLowerCase location \<mapsto> a)"
        by simp_all
      from a(3) have "LOCATION_CACHE s' (toLowerCase location) = Some a" by simp
      then have "resolveUsAddress w location s' = (Some a, s')" by (rule resolveUsAddress_cached)
      with Pair Some a ok show ?thesis by simp
    qed
  qed
  have 2: "(originCountry pr = ''US'' \<and> fst (resolveUsAddress w (origin pr) s) = None)
          \<or> (destCountry pr = ''US'' \<and> fst (resolveUsAddress w (destination pr)
                 (snd (buildShippoAddress w (origin pr) (originCountry pr) s))) = None)
        \<longrightarrow> fst (getShippoQuotes w pr em ph s) = Inr []
            \<and> \<not> list_ex is_shipment (new_calls s (snd (getShippoQuotes w pr em ph s)))"
    using getShippoQuotes_unresolved [of w pr s em ph] by (auto simp: buildShippoAddress_None)
  from 1 2 show ?thesis by blast
qed

lemma resolve_miami: "fst (resolveUsAddress miami_world ''33142'' initial_state) = Some miami"
  by code_simp

lemma resolve_silent: "fst (resolveUsAddress keyed_world ''33142'' initial_state) = None"
  by code_simp

lemma lower_33142: "toLowerCase ''33142'' = ''33142''"
  by code_simp

text \<open>
  C9 at concrete inputs: where the postal database knows 33142 the address is returned and
  cached under \<open>33142\<close>; where nothing answers, no address is returned, the cache stays empty and
  the small-parcel provider returns the empty list.
\<close>

theorem address_cache_written_on_success_witness:
  "fst (resolveUsAddress miami_world ''33142'' initial_state) = Some miami
   \<and> LOCATION_CACHE (snd (resolveUsAddress miami_world ''33142'' initial_state)) ''33142'' = Some miami
   \<and> fst (resolveUsAddress keyed_world ''33142'' initial_state) = None
   \<and> LOCATION_CACHE (snd (resolveUsAddress keyed_world ''33142'' initial_state)) = Map.empty
   \<and> fst (getShippoQuotes keyed_world domestic_box_request None None initial_state) = Inr []"
proof -
  have a: "LOCATION_CACHE (snd (resolveUsAddress miami_world ''33142'' initial_state)) ''33142'' = Some miami"
    using address_cache_written_on_success [OF initial_cache_ok, where w = miami_world and location = "''33142''"] resolve_miami
    by (cases "resolveUsAddress miami_world ''33142'' initial_state") (auto simp: lower_33142)
  have o: "origin domestic_box_request = ''33142''" "originCountry domestic_box_request = ''US''"
    by (simp_all add: domestic_box_request_def)
  have b: "LOCATION_CACHE (snd (resolveUsAddress keyed_world ''33142'' initial_state)) = Map.empty
     \<and> fst (getShippoQuotes keyed_world domestic_box_request None None initial_state) = Inr []"
    using address_cache_written_on_success [OF initial_cache_ok, where w = keyed_world and location = "''33142''"
        and pr = domestic_box_request and em = None and ph = None] resolve_silent o
    by (cases "resolveUsAddress keyed_world ''33142'' initial_state") (auto simp: initial_state_def)
  from a b resolve_miami resolve_silent show ?thesis by simp
qed


section \<open>The request handler\<close>

lemma one_parcel: "(length ps = 1 \<and> P (hd ps)) \<longleftrightarrow> (\<exists>q. ps = [q] \<and> P q)"
  by (cases ps) auto

lemma missingInfoOf_Nil: "missingInfoOf p = [] \<longleftrightarrow> parcels p \<noteq> [] \<and> origin p \<noteq> [] \<and> destination p \<noteq> []"
  by (simp add: missingInfoOf_def)

lemma quoteParsed_validated:
  assumes "parcels p \<noteq> []" "origin p \<noteq> []" "destination p \<noteq> []"
  shows "quoteParsed w req em ph p s =
     (case routeOf p of
        FreightOnly \<Rightarrow>
          (successResponse ''Freightos Only (Freight)'' [] (projr (fst (getFreightosQuotes w p s))) p,
           saveToDatabase w req (snd (getFreightosQuotes w p s)))
      | ParcelOnly \<Rightarrow>
          (successResponse ''Shippo Only (Domestic Parcel)'' (projr (fst (getShippoQuotes w p em ph s))) [] p,
           saveToDatabase w req (snd (getShippoQuotes w p em ph s)))
      | BothProviders \<Rightarrow>
          (successResponse ''Both (Comparison)'' (projr (fst (getShippoQuotes w p em ph s)))
             (projr (fst (getFreightosQuotes w p (snd (getShippoQuotes w p em ph s))))) p,
           saveToDatabase w req (snd (getFreightosQuotes w p (snd (getShippoQuotes w p em ph s))))))"
proof -
  have m: "missingInfoOf p = []" using assms by (simp add: missingInfoOf_Nil)
  obtain fq where fq: "fst (getFreightosQuotes w p s) = Inr fq"
    using getFreightosQuotes_Inr by blast
  obtain sq where sq: "fst (getShippoQuotes w p em ph s) = Inr sq"
    using getShippoQuotes_Inr by blast
  obtain fq2 where fq2: "fst (getFreightosQuotes w p (snd (getShippoQuotes w p em ph s))) = Inr fq2"
    using getFreightosQuotes_Inr by blast
  consider (f) "routeOf p = FreightOnly" | (s) "routeOf p = ParcelOnly" | (b) "routeOf p = BothProviders"
    by (cases "routeOf p") auto
  then show ?thesis
  proof cases
    case f
    then have c: "isPallet p \<or> (isInternational p \<and> \<not> needsBothQuotes p)"
      by (auto simp: routeOf_def split: if_splits)
    show ?thesis
      using c fq f m
      by (auto simp add: quoteParsed_def Let_def split_beta successResponse_def)
  next
    case s
    then have c: "\<not> (isPallet p \<or> (isInternational p \<and> \<not> needsBothQuotes p))"
      "\<not> isInternational p \<and> length (parcels p) = 1 \<and> num_lt (p_weight (hd (parcels p))) (Fin 70)"
      by (auto simp: routeOf_def split: if_splits)
    show ?thesis
      using c sq s m
      by (auto simp add: quoteParsed_def Let_def split_beta successResponse_def)
  next
    case b
    then have c: "\<not> (isPallet p \<or> (isInternational p \<and> \<not> needsBothQuotes p))"
      "\<not> (\<not> isInternational p \<and> length (parcels p) = 1 \<and> num_lt (p_weight (hd (parcels p))) (Fin 70))"
      using one_parcel [of "parcels p" "\<lambda>q. num_lt (p_weight q) (Fin 70)"]
      by (auto simp: routeOf_def split: if_splits)
    show ?thesis
      using c sq fq2 b m
      by (auto simp add: quoteParsed_def Let_def split_beta successResponse_def)
  qed
qed

lemma POST_parsed:
  assumes "req \<noteq> []" "parseNaturalLanguage req = Some p"
  shows "POST w (Some \<lparr>request = Some req, email = em, phone = ph\<rparr>) s = Some (quoteParsed w req em ph p s)"
  using assms by (simp add: POST_def truthy_str_def)

lemma saveToDatabase_sends: "sends_only (\<lambda>c. \<not> shippo_side c \<and> \<not> is_estimate c) s (saveToDatabase w req s)"
  by (simp add: saveToDatabase_def sends_only_send)

lemma getFreightosQuotes_sends: "sends_only is_estimate s (snd (getFreightosQuotes w p s))"
  by (simp add: getFreightosQuotes_state sends_only_send)

lemma shippo_side_not_estimate: "shippo_side c \<Longrightarrow> \<not> is_estimate c"
  by (cases c) auto

lemma is_estimate_not_shippo: "is_estimate c \<Longrightarrow> \<not> shippo_side c"
  by (cases c) auto

text \<open>
  C1. For every request text whose parsed result passes validation (parcels, origin and
  destination all non-empty) the handler answers, and:
  if \<open>isPallet\<close>, or \<open>isInternational\<close> and not \<open>needsBothQuotes\<close>, the answer carries the quotes
  of \<open>getFreightosQuotes\<close> alone, the estimate request is sent and no request of the small-parcel
  path is;
  otherwise, if not \<open>isInternational\<close> and there is exactly one parcel, of weight below 70, the
  answer carries the quotes of \<open>getShippoQuotes\<close> alone and no estimate request is sent;
  in every other case both providers are asked and the quotes of the answer are the
  small-parcel list followed by the freight list.
\<close>

theorem dispatch_follows_routing_table:
  assumes "parseNaturalLanguage req = Some p"
    and "parcels p \<noteq> []" "origin p \<noteq> []" "destination p \<noteq> []"
  shows "\<exists>resp s'. POST w (Some \<lparr>request = Some req, email = em, phone = ph\<rparr>) s = Some (resp, s') \<and>
     (if isPallet p \<or> (isInternational p \<and> \<not> needsBothQuotes p) then
        resp = successResponse ''Freightos Only (Freight)'' [] (projr (fst (getFreightosQuotes w p s))) p
        \<and> sends_only (\<lambda>c. \<not> shippo_side c) s s'
        \<and> list_ex is_estimate (new_calls s s')
      else if \<not> isInternational p \<and> (\<exists>q. parcels p = [q] \<and> num_lt (p_weight q) (Fin 70)) then
        resp = successResponse ''Shippo Only (Domestic Parcel)'' (projr (fst (getShippoQuotes w p em ph s))) [] p
        \<and> sends_only (\<lambda>c. \<not> is_estimate c) s s'
      else
        resp = successResponse ''Both (Comparison)'' (projr (fst (getShippoQuotes w p em ph s)))
                 (projr (fst (getFreightosQuotes w p (snd (getShippoQuotes w p em ph s))))) p
        \<and> quotes resp = projr (fst (getShippoQuotes w p em ph s)) @
                 projr (fst (getFreightosQuotes w p (snd (getShippoQuotes w p em ph s))))
        \<and> list_ex is_estimate (new_calls s s'))"
proof -
  let ?sh = "snd (getShippoQuotes w p em ph s)"
  have q: "POST w (Some \<lparr>request = Some req, email = em, phone = ph\<rparr>) s = Some (quoteParsed w req em ph p s)"
    using validated_nonempty [OF assms(1,3)] assms(1) by (rule POST_parsed)
  note v = quoteParsed_validated [OF assms(2-4), of w req em ph s]
  consider (f) "routeOf p = FreightOnly" | (s) "routeOf p = ParcelOnly" | (b) "routeOf p = BothProviders"
    by (cases "routeOf p") auto
  then show ?thesis
  proof cases
    case f
    then have c: "isPallet p \<or> (isInternational p \<and> \<not> needsBothQuotes p)"
      by (auto simp: routeOf_def split: if_splits)
    have 1: "sends_only (\<lambda>c. \<not> shippo_side c) s (snd (getFreightosQuotes w p s))"
      using getFreightosQuotes_sends [of s w p] by (rule sends_only_mono) (rule is_estimate_not_shippo)
    have 2: "sends_only (\<lambda>c. \<not> shippo_side c) (snd (getFreightosQuotes w p s))
               (saveToDatabase w req (snd (getFreightosQuotes w p s)))"
      using saveToDatabase_sends by (rule sends_only_mono) simp
    have 3: "list_ex is_estimate (new_calls s (saveToDatabase w req (snd (getFreightosQuotes w p s))))"
      by (simp add: getFreightosQuotes_state saveToDatabase_def new_calls_def send_def)
    show ?thesis
      using q v f c sends_only_trans [OF 1 2] 3 by simp
  next
    case s
    then have c: "\<not> (isPallet p \<or> (isInternational p \<and> \<not> needsBothQuotes p))"
      "\<not> isInternational p \<and> (\<exists>q. parcels p = [q] \<and> num_lt (p_weight q) (Fin 70))"
      by (auto simp: routeOf_def split: if_splits)
    have 1: "sends_only (\<lambda>c. \<not> is_estimate c) s ?sh"
      using getShippoQuotes_sends [of s w p em ph] by (rule sends_only_mono) (rule shippo_side_not_estimate)
    have 2: "sends_only (\<lambda>c. \<not> is_estimate c) ?sh (saveToDatabase w req ?sh)"
      using saveToDatabase_sends by (rule sends_only_mono) simp
    show ?thesis
      using q v s c sends_only_trans [OF 1 2] by simp
  next
    case b
    then have c: "\<not> (isPallet p \<or> (isInternational p \<and> \<not> needsBothQuotes p))"
      "\<not> (\<not> isInternational p \<and> (\<exists>q. parcels p = [q] \<and> num_lt (p_weight q) (Fin 70)))"
      by (auto simp: routeOf_def split: if_splits)
    let ?fr = "snd (getFreightosQuotes w p ?sh)"
    have g1: "grows s ?sh" using getShippoQuotes_sends [of s w p em ph] by (simp add: sends_only_def)
    have g2: "grows ?sh ?fr" using getFreightosQuotes_sends [of ?sh w p] by (simp add: sends_only_def)
    have g3: "grows ?fr (saveToDatabase w req ?fr)" using saveToDatabase_sends [of ?fr w req] by (simp add: sends_only_def)
    have n: "new_calls s (saveToDatabase w req ?fr)
         = new_calls s ?sh @ new_calls ?sh ?fr @ new_calls ?fr (saveToDatabase w req ?fr)"
      using grows_trans [OF g1 g2] grows_trans [of s ?fr "saveToDatabase w req ?fr"] g3 by simp
    have "new_calls ?sh ?fr = [FreightosEstimate p]"
      by (simp add: getFreightosQuotes_state)
    with n have 3: "list_ex is_estimate (new_calls s (saveToDatabase w req ?fr))" by simp
    show ?thesis
      using q v b c 3 by (simp add: successResponse_def)
  qed
qed

text \<open>
  C1 at a concrete input: a domestic request for one 20 lb box takes the second row of the
  table.
\<close>

theorem dispatch_follows_routing_table_witness:
  "\<exists>resp s'. POST silent_world
       (Some \<lparr>request = Some ''24x10x10 20lbs from 33142 to 90210'', email = None, phone = None\<rparr>)
       initial_state = Some (resp, s')
     \<and> resp = successResponse ''Shippo Only (Domestic Parcel)'' [] [] domestic_box_request"
proof -
  have 1: "parcels domestic_box_request \<noteq> []" "origin domestic_box_request \<noteq> []"
    "destination domestic_box_request \<noteq> []"
    by (simp_all add: domestic_box_request_def)
  have 2: "fst (getShippoQuotes silent_world domestic_box_request None None initial_state) = Inr []"
    by (simp add: getShippoQuotes_def silent_world_def truthy_str_def)
  show ?thesis
    using dispatch_follows_routing_table [OF parse_plain 1, where w = silent_world and em = None and ph = None and s = initial_state] 2
    by (auto simp: domestic_box_request_def box_20lb_def)
qed

text \<open>
  C3, as the code has it. For every non-empty request text whose parsed result has an empty
  parcel list, an empty origin or an empty destination, the handler answers with
  \<open>success = False\<close> and routing \<open>incomplete\<close>; \<open>missingInfo\<close> lists \<open>dimensions\<close> when there is no
  parcel, \<open>origin\<close> when the origin is empty and \<open>destination\<close> when the destination is empty,
  in this order and nothing else; the state is unchanged, so no request was sent to a provider.
\<close>

theorem incomplete_request_short_circuit:
  assumes "req \<noteq> []" "parseNaturalLanguage req = Some p"
    and "parcels p = [] \<or> origin p = [] \<or> destination p = []"
  shows "\<exists>resp. POST w (Some \<lparr>request = Some req, email = em, phone = ph\<rparr>) s = Some (resp, s)
     \<and> success resp = False \<and> routing resp = ''incomplete'' \<and> quotes resp = [] \<and> parsed resp = p
     \<and> missingInfo resp = Some
          ((if parcels p = [] then [''dimensions''] else []) @
           (if origin p = [] then [''origin''] else []) @
           (if destination p = [] then [''destination''] else []))"
proof -
  from assms(3) have "missingInfoOf p \<noteq> []" by (auto simp: missingInfoOf_def)
  then show ?thesis
    using POST_parsed [OF assms(1,2), of w em ph s]
    by (simp add: quoteParsed_def Let_def missingInfoOf_def)
qed

text \<open>
  C3 at a concrete input: the text \<open>hello\<close> lacks all three.
\<close>

theorem incomplete_request_short_circuit_witness:
  "\<exists>resp. POST keyed_world (Some \<lparr>request = Some ''hello'', email = None, phone = None\<rparr>) initial_state
       = Some (resp, initial_state)
     \<and> routing resp = ''incomplete''
     \<and> missingInfo resp = Some [''dimensions'', ''origin'', ''destination'']"
  using incomplete_request_short_circuit [where req = "''hello''" and p = emptyParsed and w = keyed_world and em = None and ph = None
      and s = initial_state] parse_hello
  by (auto simp: emptyParsed_def)

text \<open>
  C3 as stated covers every request. The empty text parses to a request with no parcel, but
  the handler rejects it before parsing: the routing of the answer is \<open>error\<close>, not
  \<open>incomplete\<close>, and there is no \<open>missingInfo\<close>.
\<close>

theorem empty_request_is_error:
  "map_option parcels (parseNaturalLanguage []) = Some []
   \<and> map_option (\<lambda>r. routing (fst r))
        (POST silent_world (Some \<lparr>request = Some [], email = None, phone = None\<rparr>) initial_state) = Some ''error''
   \<and> map_option (\<lambda>r. missingInfo (fst r))
        (POST silent_world (Some \<lparr>request = Some [], email = None, phone = None\<rparr>) initial_state) = Some None"
  by (simp add: parse_Nil emptyParsed_def POST_def truthy_str_def errorResponse_def)


section \<open>Failures of the providers\<close>

lemma getShippoQuotes_caught:
  "fst (getShippoQuotes_try w pr em ph s) = Inl e \<Longrightarrow> fst (getShippoQuotes w pr em ph s) = Inr []"
  by (cases "getShippoQuotes_try w pr em ph s") (auto simp: getShippoQuotes_def)

lemma getShippoQuotes_try_fetch_fails:
  assumes "fst (buildShippoAddress w (origin pr) (originCountry pr) s) = Some a1"
    and "fst (buildShippoAddress w (destination pr) (destCountry pr)
            (snd (buildShippoAddress w (origin pr) (originCountry pr) s))) = Some a2"
    and "shippoShipments w
           (length (calls (snd (buildShippoAddress w (destination pr) (destCountry pr)
              (snd (buildShippoAddress w (origin pr) (originCountry pr) s))))))
           a1 a2 (parcels pr) (str_or_default em DEFAULT_CONTACT_EMAIL) (str_or_default ph DEFAULT_CONTACT_PHONE)
         = Rejected
       \<or> (\<exists>ok. shippoShipments w
           (length (calls (snd (buildShippoAddress w (destination pr) (destCountry pr)
              (snd (buildShippoAddress w (origin pr) (originCountry pr) s))))))
           a1 a2 (parcels pr) (str_or_default em DEFAULT_CONTACT_EMAIL) (str_or_default ph DEFAULT_CONTACT_PHONE)
         = Response ok None)"
  shows "\<exists>e. fst (getShippoQuotes_try w pr em ph s) = Inl e"
proof -
  obtain a s1 where o: "buildShippoAddress w (origin pr) (originCountry pr) s = (a, s1)"
    by (cases "buildShippoAddress w (origin pr) (originCountry pr) s")
  obtain b s2 where d: "buildShippoAddress w (destination pr) (destCountry pr) s1 = (b, s2)"
    by (cases "buildShippoAddress w (destination pr) (destCountry pr) s1")
  from assms o d show ?thesis
    by (auto simp: getShippoQuotes_try_def Let_def)
qed

lemma getFreightosQuotes_fetch_fails:
  "freightosCalculator w (length (calls s)) pr = Rejected
     \<or> (\<exists>ok. freightosCalculator w (length (calls s)) pr = Response ok None)
   \<Longrightarrow> fst (getFreightosQuotes w pr s) = Inr []"
  by (auto simp: getFreightosQuotes_def getFreightosQuotes_try_def Let_def)

text \<open>
  C7. Each provider function returns a list of quotes and never an exception, in every world
  and state. The list is empty when the API key of the small-parcel provider is missing, when an
  address of the request does not resolve, when the shipment request is rejected by the network
  or its body does not parse, and when the estimate request is rejected or its body does not
  parse. A validated request is always answered with \<open>success = True\<close>, and where both providers
  are asked the quotes of the answer are the two lists one after the other, whatever either of
  them is.
\<close>

theorem providers_never_throw:
  "(\<exists>qs. fst (getShippoQuotes w pr em ph s) = Inr qs)
   \<and> (\<exists>qs. fst (getFreightosQuotes w pr s) = Inr qs)
   \<and> (\<not> truthy_str (SHIPPO_API_KEY w) \<longrightarrow> fst (getShippoQuotes w pr em ph s) = Inr [])
   \<and> (fst (buildShippoAddress w (origin pr) (originCountry pr) s) = None
        \<or> fst (buildShippoAddress w (destination pr) (destCountry pr)
               (snd (buildShippoAddress w (origin pr) (originCountry pr) s))) = None
       \<longrightarrow> fst (getShippoQuotes w pr em ph s) = Inr [])
   \<and> (\<forall>a1 a2.
         fst (buildShippoAddress w (origin pr) (originCountry pr) s) = Some a1
         \<and> fst (buildShippoAddress w (destination pr) (destCountry pr)
               (snd (buildShippoAddress w (origin pr) (originCountry pr) s))) = Some a2
         \<and> (shippoShipments w
               (length (calls (snd (buildShippoAddress w (destination pr) (destCountry pr)
                  (snd (buildShippoAddress w (origin pr) (originCountry pr) s))))))
               a1 a2 (parcels pr) (str_or_default em DEFAULT_CONTACT_EMAIL)
               (str_or_default ph DEFAULT_CONTACT_PHONE) = Rejected
             \<or> (\<exists>ok. shippoShipments w
               (length (calls (snd (buildShippoAddress w (destination pr) (destCountry pr)
                  (snd (buildShippoAddress w (origin pr) (originCountry pr) s))))))
               a1 a2 (parcels pr) (str_or_default em DEFAULT_CONTACT_EMAIL)
               (str_or_default ph DEFAULT_CONTACT_PHONE) = Response ok None))
         \<longrightarrow> fst (getShippoQuotes w pr em ph s) = Inr [])
   \<and> (freightosCalculator w (length (calls s)) pr = Rejected
        \<or> (\<exists>ok. freightosCalculator w (length (calls s)) pr = Response ok None)
       \<longrightarrow> fst (getFreightosQuotes w pr s) = Inr [])
   \<and> (parseNaturalLanguage req = Some pr \<and> parcels pr \<noteq> [] \<and> origin pr \<noteq> [] \<and> destination pr \<noteq> []
       \<longrightarrow> (\<exists>resp s'. POST w (Some \<lparr>request = Some req, email = em, phone = ph\<rparr>) s = Some (resp, s')
              \<and> success resp
              \<and> (routeOf pr = BothProviders \<longrightarrow>
                    quotes resp = projr (fst (getShippoQuotes w pr em ph s)) @
                      projr (fst (getFreightosQuotes w pr (snd (getShippoQuotes w pr em ph s)))))))"
proof -
  have 1: "\<exists>qs. fst (getShippoQuotes w pr em ph s) = Inr qs" by (rule getShippoQuotes_Inr)
  have 2: "\<exists>qs. fst (getFreightosQuotes w pr s) = Inr qs" by (rule getFreightosQuotes_Inr)
  have 3: "\<not> truthy_str (SHIPPO_API_KEY w) \<longrightarrow> fst (getShippoQuotes w pr em ph s) = Inr []"
    by (simp add: getShippoQuotes_def)
  have 4: "fst (buildShippoAddress w (origin pr) (originCountry pr) s) = None
        \<or> fst (buildShippoAddress w (destination pr) (destCountry pr)
               (snd (buildShippoAddress w (origin pr) (originCountry pr) s))) = None
       \<longrightarrow> fst (getShippoQuotes w pr em ph s) = Inr []"
    using getShippoQuotes_unresolved [of w pr s em ph] by blast
  have 5: "\<forall>a1 a2.
         fst (buildShippoAddress w (origin pr) (originCountry pr) s) = Some a1
         \<and> fst (buildShippoAddress w (destination pr) (destCountry pr)
               (snd (buildShippoAddress w (origin pr) (originCountry pr) s))) = Some a2
         \<and> (shippoShipments w
               (length (calls (snd (buildShippoAddress w (destination pr) (destCountry pr)
                  (snd (buildShippoAddress w (origin pr) (originCountry pr) s))))))
               a1 a2 (parcels pr) (str_or_default em DEFAULT_CONTACT_EMAIL)
               (str_or_default ph DEFAULT_CONTACT_PHONE) = Rejected
             \<or> (\<exists>ok. shippoShipments w
               (length (calls (snd (buildShippoAddress w (destination pr) (destCountry pr)
                  (snd (buildShippoAddress w (origin pr) (originCountry pr) s))))))
               a1 a2 (parcels pr) (str_or_default em DEFAULT_CONTACT_EMAIL)
               (str_or_default ph DEFAULT_CONTACT_PHONE) = Response ok None))
         \<longrightarrow> fst (getShippoQuotes w pr em ph s) = Inr []"
    using getShippoQuotes_try_fetch_fails [of w pr s _ _ em ph] getShippoQuotes_caught [of w pr em ph s]
    by blast
  have 6: "freightosCalculator w (length (calls s)) pr = Rejected
        \<or> (\<exists>ok. freightosCalculator w (length (calls s)) pr = Response ok None)
       \<longrightarrow> fst (getFreightosQuotes w pr s) = Inr []"
    using getFreightosQuotes_fetch_fails [of w s pr] by blast
  have 7: "parseNaturalLanguage req = Some pr \<and> parcels pr \<noteq> [] \<and> origin pr \<noteq> [] \<and> destination pr \<noteq> []
       \<longrightarrow> (\<exists>resp s'. POST w (Some \<lparr>request = Some req, email = em, phone = ph\<rparr>) s = Some (resp, s')
              \<and> success resp
              \<and> (routeOf pr = BothProviders \<longrightarrow>
                    quotes resp = projr (fst (getShippoQuotes w pr em ph s)) @
                      projr (fst (getFreightosQuotes w pr (snd (getShippoQuotes w pr em ph s))))))"
  proof (intro impI, elim conjE)
    assume a: "parseNaturalLanguage req = Some pr" "parcels pr \<noteq> []" "origin pr \<noteq> []" "destination pr \<noteq> []"
    from validated_nonempty [OF a(1,3)] have ne: "req \<noteq> []" .
    show "\<exists>resp s'. POST w (Some \<lparr>request = Some req, email = em, phone = ph\<rparr>) s = Some (resp, s')
              \<and> success resp
              \<and> (routeOf pr = BothProviders \<longrightarrow>
                    quotes resp = projr (fst (getShippoQuotes w pr em ph s)) @
                      projr (fst (getFreightosQuotes w pr (snd (getShippoQuotes w pr em ph s)))))"
      using POST_parsed [OF ne a(1), of w em ph s] quoteParsed_validated [OF a(2-4), of w req em ph s]
      by (cases "routeOf pr") (simp_all add: successResponse_def)
  qed
  from 1 2 3 4 5 6 7 show ?thesis by blast
qed

lemma build_origin_miami:
  "fst (buildShippoAddress miami_world ''33142'' ''US'' initial_state)
     = Some \<lparr>city = ''Miami'', state = ''FL'', zip = ''33142'', country = ''US''\<rparr>"
  by code_simp

lemma build_destination_miami:
  "fst (buildShippoAddress miami_world ''90210'' ''US''
          (snd (buildShippoAddress miami_world ''33142'' ''US'' initial_state)))
     = Some \<lparr>city = ''Miami'', state = ''FL'', zip = ''90210'', country = ''US''\<rparr>"
  by code_simp

lemma miami_shipment_rejected: "shippoShipments miami_world t a b ps e p = Rejected"
  by (simp add: miami_world_def keyed_world_def silent_world_def)

text \<open>
  C7 at concrete inputs: without an API key, with a key where no address resolves, and where the
  addresses resolve and the shipment request is rejected, the small-parcel provider returns the
  empty list; where the estimate request is rejected the freight provider does; and the handler
  still answers the validated request with \<open>success = True\<close>.
\<close>

theorem providers_never_throw_witness:
  "fst (getShippoQuotes silent_world domestic_box_request None None initial_state) = Inr []
   \<and> fst (getShippoQuotes keyed_world domestic_box_request None None initial_state) = Inr []
   \<and> fst (getShippoQuotes miami_world domestic_box_request None None initial_state) = Inr []
   \<and> fst (getFreightosQuotes silent_world domestic_box_request initial_state) = Inr []
   \<and> (\<exists>resp s'. POST silent_world
          (Some \<lparr>request = Some ''24x10x10 20lbs from 33142 to 90210'', email = None, phone = None\<rparr>)
          initial_state = Some (resp, s') \<and> success resp)"
proof -
  have d: "origin domestic_box_request = ''33142''" "originCountry domestic_box_request = ''US''"
    "destination domestic_box_request = ''90210''" "destCountry domestic_box_request = ''US''"
    "parcels domestic_box_request \<noteq> []"
    by (simp_all add: domestic_box_request_def)
  have k: "fst (buildShippoAddress keyed_world ''33142'' ''US'' initial_state) = None"
    using resolve_silent by (auto simp: buildShippoAddress_def split: prod.splits option.splits)
  have 1: "fst (getShippoQuotes silent_world domestic_box_request None None initial_state) = Inr []
     \<and> fst (getFreightosQuotes silent_world domestic_box_request initial_state) = Inr []
     \<and> (\<exists>resp s'. POST silent_world
          (Some \<lparr>request = Some ''24x10x10 20lbs from 33142 to 90210'', email = None, phone = None\<rparr>)
          initial_state = Some (resp, s') \<and> success resp)"
    using providers_never_throw [where w = silent_world and pr = domestic_box_request and em = None and ph = None
      and s = initial_state and req = "''24x10x10 20lbs from 33142 to 90210''"] parse_plain d
    by (auto simp: silent_world_def truthy_str_def)
  have 2: "fst (getShippoQuotes keyed_world domestic_box_request None None initial_state) = Inr []"
    using providers_never_throw [where w = keyed_world and pr = domestic_box_request and em = None and ph = None
      and s = initial_state and req = "[]"] k d
    by simp
  have 3: "fst (getShippoQuotes miami_world domestic_box_request None None initial_state) = Inr []"
    using providers_never_throw [where w = miami_world and pr = domestic_box_request and em = None and ph = None
      and s = initial_state and req = "[]"] build_origin_miami build_destination_miami
      miami_shipment_rejected d
    by simp
  from 1 2 3 show ?thesis by simp
qed

end
